theory Spec2Isabelle
  imports Main "HOL-Library.AList"
begin

section \<open>Python values used by the gateway\<close>

text \<open>
  Python strings are modelled as \<^typ>\<open>string\<close>; a \<^typ>\<open>char\<close> stands for a code
  point below 256.  Python integers are unbounded and modelled as \<^typ>\<open>int\<close>.
\<close>

subsection \<open>Exceptions\<close>

text \<open>
  The exceptions the three modules can raise.  \<open>ValueError\<close> carries the message the
  source builds; \<open>JSONDecodeError\<close> is the subclass of \<open>ValueError\<close> that
  \<open>json.load\<close> raises on text that is not JSON.
\<close>

datatype pyerr =
    FileNotFoundError string
  | ValueError string
  | JSONDecodeError
  | TypeError
  | KeyError string
  | AttributeError
  | NameError string
  | OverflowError
  | UnicodeDecodeError
  | OtpError

subsection \<open>Whitespace, \<open>str.strip\<close>, \<open>str(int)\<close> and \<open>int(str)\<close>\<close>

text \<open>The code points below 256 for which \<open>str.isspace\<close> holds; \<open>str.strip\<close> removes
  them.\<close>

definition py_isspace :: "char \<Rightarrow> bool" where
  "py_isspace c =
     ((of_char c :: nat) \<in> set [9, 10, 11, 12, 13, 28, 29, 30, 31, 32, 133, 160])"

definition py_strip :: "string \<Rightarrow> string" where
  "py_strip s = rev (dropWhile py_isspace (rev (dropWhile py_isspace s)))"

text \<open>
  The code points below 256 that \<open>int\<close> skips around a number.  The set is smaller
  than that of \<open>str.strip\<close>: the separators 28 to 31 are not skipped, so
  \<open>int('\x1c5')\<close> raises although \<open>'\x1c5'.strip()\<close> is \<open>'5'\<close>.
\<close>

definition int_isspace :: "char \<Rightarrow> bool" where
  "int_isspace c = ((of_char c :: nat) \<in> set [9, 10, 11, 12, 13, 32, 133, 160])"

definition int_strip :: "string \<Rightarrow> string" where
  "int_strip s = rev (dropWhile int_isspace (rev (dropWhile int_isspace s)))"

definition is_digit :: "char \<Rightarrow> bool" where
  "is_digit c = ((48::nat) \<le> of_char c \<and> (of_char c :: nat) \<le> 57)"

definition digit_val :: "char \<Rightarrow> nat" where
  "digit_val c = of_char c - 48"

definition digit_char :: "nat \<Rightarrow> char" where
  "digit_char d = char_of (48 + d)"

fun str_nat :: "nat \<Rightarrow> string" where
  "str_nat n = (if n < 10 then [digit_char n] else str_nat (n div 10) @ [digit_char (n mod 10)])"

declare str_nat.simps [simp del]

text \<open>\<open>str(i)\<close> for an integer: the decimal digits, with a minus sign when negative.\<close>

definition py_str_int :: "int \<Rightarrow> string" where
  "py_str_int i = (if i < 0 then CHR ''-'' # str_nat (nat (- i)) else str_nat (nat i))"

text \<open>
  \<open>int(s)\<close> for a string in base 10: the whitespace around the number is skipped, one
  sign is allowed, then digits in which single underscores may stand between two
  digits.  \<open>max_digits\<close> is \<open>sys.get_int_max_str_digits()\<close> (4300 unless changed, 0
  for no limit, as in interpreters that have none): a literal with more digits than a
  limit above 0 is refused.  \<open>None\<close> is \<open>ValueError\<close>.
\<close>

fun digits_value :: "nat \<Rightarrow> string \<Rightarrow> nat option" where
  "digits_value acc [] = Some acc"
| "digits_value acc (c # cs) =
     (if is_digit c then digits_value (10 * acc + digit_val c) cs
      else if c = CHR ''_'' then
        (case cs of
           [] \<Rightarrow> None
         | d # ds \<Rightarrow> if is_digit d then digits_value (10 * acc + digit_val d) ds else None)
      else None)"

definition unsigned_value :: "string \<Rightarrow> nat option" where
  "unsigned_value s =
     (case s of
        [] \<Rightarrow> None
      | c # cs \<Rightarrow> if is_digit c then digits_value (digit_val c) cs else None)"

definition within_digit_limit :: "nat \<Rightarrow> string \<Rightarrow> bool" where
  "within_digit_limit max_digits s = (max_digits = 0 \<or> length (filter is_digit s) \<le> max_digits)"

definition py_int_of_str :: "nat \<Rightarrow> string \<Rightarrow> int option" where
  "py_int_of_str max_digits s =
     (if \<not> within_digit_limit max_digits s then None
      else
        (case int_strip s of
           [] \<Rightarrow> None
         | c # cs \<Rightarrow>
             if c = CHR ''-'' then map_option (\<lambda>n. - int n) (unsigned_value cs)
             else if c = CHR ''+'' then map_option int (unsigned_value cs)
             else map_option int (unsigned_value (c # cs))))"

subsection \<open>JSON documents as Python objects\<close>

text \<open>
  A float is \<open>m * 2 ^ e\<close> (every finite double is of that form), an infinity (the
  flag is the sign: \<open>True\<close> for negative) or not-a-number.
\<close>

datatype pyfloat = Finite int int | Infinity bool | NaN

text \<open>
  What \<open>json.load\<close> returns.  A dict is an association list in insertion order
  with distinct keys.
\<close>

datatype json =
    JNull
  | JBool bool
  | JInt int
  | JFloat pyfloat
  | JStr string
  | JList "json list"
  | JObj "(string \<times> json) list"

text \<open>
  What the modules take from the interpreter and from libraries that are not part of
  the repository: \<open>hashlib.sha256(p.encode()).hexdigest()\<close>; the code \<open>pyotp\<close>
  generates for a secret at a time step (\<open>None\<close> when the library raises, as for a
  secret that is not base32; the exception is \<open>OtpError\<close>); the comparison \<open>pyotp\<close>
  makes between the submitted code and a generated one (its \<open>strings_equal\<close>, which
  normalises both strings before comparing them); \<open>repr\<close> of floats, lists and dicts;
  and the interpreter's limit on the digits of an integer literal.
\<close>

record pylib =
  sha256_hexdigest :: "string \<Rightarrow> string"
  totp_at :: "string \<Rightarrow> int \<Rightarrow> string option"
  otp_equal :: "string \<Rightarrow> string \<Rightarrow> bool"
  py_repr :: "json \<Rightarrow> string"
  int_max_str_digits :: nat

text \<open>Truth value of an object, as \<open>if x\<close> and \<open>not x\<close> take it.\<close>

fun truthy :: "json \<Rightarrow> bool" where
  "truthy JNull = False"
| "truthy (JBool b) = b"
| "truthy (JInt i) = (i \<noteq> 0)"
| "truthy (JFloat (Finite m e)) = (m \<noteq> 0)"
| "truthy (JFloat (Infinity neg)) = True"
| "truthy (JFloat NaN) = True"
| "truthy (JStr s) = (s \<noteq> [])"
| "truthy (JList xs) = (xs \<noteq> [])"
| "truthy (JObj kvs) = (kvs \<noteq> [])"

text \<open>\<open>int(x)\<close> of a float truncates towards zero.\<close>

definition trunc_float :: "int \<Rightarrow> int \<Rightarrow> int" where
  "trunc_float m e =
     (if 0 \<le> e then m * 2 ^ nat e
      else if 0 \<le> m then m div 2 ^ nat (- e)
      else - ((- m) div 2 ^ nat (- e)))"

text \<open>\<open>int(x)\<close>.  The message of a \<open>ValueError\<close> that a builtin raises is left
  empty.\<close>

fun py_int :: "pylib \<Rightarrow> json \<Rightarrow> pyerr + int" where
  "py_int lib JNull = Inl TypeError"
| "py_int lib (JBool b) = Inr (if b then 1 else 0)"
| "py_int lib (JInt i) = Inr i"
| "py_int lib (JFloat (Finite m e)) = Inr (trunc_float m e)"
| "py_int lib (JFloat (Infinity neg)) = Inl OverflowError"
| "py_int lib (JFloat NaN) = Inl (ValueError [])"
| "py_int lib (JStr s) =
     (case py_int_of_str (int_max_str_digits lib) s of
        None \<Rightarrow> Inl (ValueError [])
      | Some i \<Rightarrow> Inr i)"
| "py_int lib (JList xs) = Inl TypeError"
| "py_int lib (JObj kvs) = Inl TypeError"

text \<open>\<open>str(x)\<close>.\<close>

fun py_str :: "pylib \<Rightarrow> json \<Rightarrow> string" where
  "py_str lib JNull = ''None''"
| "py_str lib (JBool b) = (if b then ''True'' else ''False'')"
| "py_str lib (JInt i) = py_str_int i"
| "py_str lib (JStr s) = s"
| "py_str lib x = py_repr lib x"

text \<open>\<open>d.get(key, default)\<close>: only a dict has the method.\<close>

fun py_get :: "json \<Rightarrow> string \<Rightarrow> json \<Rightarrow> pyerr + json" where
  "py_get (JObj kvs) k d = Inr (case map_of kvs k of None \<Rightarrow> d | Some v \<Rightarrow> v)"
| "py_get x k d = Inl AttributeError"

text \<open>\<open>x[key]\<close> for a string key: a dict looks the key up, a list or a string
  wants an integer index, anything else is not subscriptable.\<close>

fun py_getitem :: "json \<Rightarrow> string \<Rightarrow> pyerr + json" where
  "py_getitem (JObj kvs) k = (case map_of kvs k of None \<Rightarrow> Inl (KeyError k) | Some v \<Rightarrow> Inr v)"
| "py_getitem x k = Inl TypeError"

fun is_substring :: "string \<Rightarrow> string \<Rightarrow> bool" where
  "is_substring k [] = (k = [])"
| "is_substring k (c # cs) = (take (length k) (c # cs) = k \<or> is_substring k cs)"

text \<open>\<open>key in x\<close> for a string key.\<close>

fun py_contains :: "json \<Rightarrow> string \<Rightarrow> pyerr + bool" where
  "py_contains (JObj kvs) k = Inr (k \<in> set (map fst kvs))"
| "py_contains (JList xs) k = Inr (JStr k \<in> set xs)"
| "py_contains (JStr s) k = Inr (is_substring k s)"
| "py_contains x k = Inl TypeError"

subsection \<open>The two files\<close>

text \<open>
  A file is modelled by what \<open>json.load\<close> makes of it: a document, or a
  \<open>JSONDecodeError\<close>.  \<open>json.dump\<close> writes a document that \<open>json.load\<close> reads
  back unchanged.  \<open>config_file\<close> is \<open>WOL_Brige.config\<close>, \<open>admin_file\<close> is
  \<open>admin_config.json\<close>; \<open>None\<close> is a file that does not exist.  The integers of a
  document are within the interpreter's digit limit, since \<open>json.load\<close> has read them.
  Not modelled: failures of the operating system other than a missing file, and files
  on which \<open>json.load\<close> raises another \<open>ValueError\<close> than \<open>JSONDecodeError\<close> (bytes
  that are not UTF-8, an integer literal beyond the digit limit).
\<close>

datatype contents = Doc json | Not_json

record files =
  config_file :: "contents option"
  admin_file :: "contents option"

subsection \<open>Regular expressions: the fragment of \<open>re\<close> used by \<open>validate_mac\<close>\<close>

text \<open>
  A character class is a list of inclusive code-point ranges (\<open>0-9\<close> is one range, a
  single character is the range from itself to itself).  \<open>Caret\<close> is \<open>^\<close> and
  \<open>Dollar\<close> is \<open>$\<close>, both without the MULTILINE flag: \<open>^\<close> holds at position 0
  and \<open>$\<close> holds at the end of the string and just before a newline that is the last
  character.  \<open>Repeat n r\<close> is \<open>r{n}\<close>.
\<close>

datatype regex =
    Class "(char \<times> char) list"
  | Cat regex regex
  | Repeat nat regex
  | Caret
  | Dollar

definition in_class :: "(char \<times> char) list \<Rightarrow> char \<Rightarrow> bool" where
  "in_class rs c =
     list_ex (\<lambda>(lo, hi). (of_char lo :: nat) \<le> of_char c \<and> (of_char c :: nat) \<le> of_char hi) rs"

text \<open>
  A matcher state is the number of characters consumed and the rest of the subject;
  a regex maps a state to the states reachable by matching it (in the order the
  backtracking matcher tries them).
\<close>

type_synonym rx_state = "nat \<times> string"

fun rx_times :: "nat \<Rightarrow> (rx_state \<Rightarrow> rx_state list) \<Rightarrow> rx_state \<Rightarrow> rx_state list" where
  "rx_times 0 f st = [st]"
| "rx_times (Suc n) f st = concat (map (rx_times n f) (f st))"

primrec rx :: "regex \<Rightarrow> rx_state \<Rightarrow> rx_state list" where
  "rx (Class rs) = (\<lambda>(pos, rest).
     (case rest of
        [] \<Rightarrow> []
      | c # t \<Rightarrow> if in_class rs c then [(Suc pos, t)] else []))"
| "rx (Cat a b) = (\<lambda>st. concat (map (rx b) (rx a st)))"
| "rx (Repeat n a) = rx_times n (rx a)"
| "rx Caret = (\<lambda>(pos, rest). if pos = 0 then [(pos, rest)] else [])"
| "rx Dollar = (\<lambda>(pos, rest).
     if rest = [] \<or> rest = [CHR 0x0A] then [(pos, rest)] else [])"

text \<open>\<open>re.match(pattern, s)\<close> tries the pattern at position 0 only; the result is
  truthy when some match exists.\<close>

definition re_match :: "regex \<Rightarrow> string \<Rightarrow> bool" where
  "re_match p s = (rx p (0, s) \<noteq> [])"

section \<open>\<open>setup_wol.py\<close>: MAC validation\<close>

text \<open>The class \<open>[0-9A-Fa-f]\<close>.\<close>

definition hex_class :: regex where
  "hex_class = Class [(CHR ''0'', CHR ''9''), (CHR ''A'', CHR ''F''), (CHR ''a'', CHR ''f'')]"

text \<open>The class \<open>[:-]\<close>.\<close>

definition sep_class :: regex where
  "sep_class = Class [(CHR '':'', CHR '':''), (CHR ''-'', CHR ''-'')]"

text \<open>The groups of the pattern: \<open>[0-9A-Fa-f]{2}\<close> and \<open>([0-9A-Fa-f]{2}[:-])\<close>.\<close>

definition hex_pair :: regex where
  "hex_pair = Repeat 2 hex_class"

definition mac_group :: regex where
  "mac_group = Cat hex_pair sep_class"

text \<open>The pattern \<^verbatim>\<open>^([0-9A-Fa-f]{2}[:-]){5}([0-9A-Fa-f]{2})$\<close>.\<close>

definition MAC_PATTERN :: regex where
  "MAC_PATTERN = Cat Caret (Cat (Repeat 5 mac_group) (Cat hex_pair Dollar))"

definition validate_mac :: "string \<Rightarrow> bool" where
  "validate_mac mac = (if re_match MAC_PATTERN mac then True else False)"

subsection \<open>The format in the words of the specification\<close>

definition is_hex_digit :: "char \<Rightarrow> bool" where
  "is_hex_digit c = (c \<in> set ''0123456789abcdefABCDEF'')"

text \<open>\<open>hex_groups n sep s\<close>: \<open>s\<close> is exactly \<open>n\<close> groups of two hexadecimal digits,
  with one character satisfying \<open>sep\<close> between neighbouring groups.\<close>

fun hex_groups :: "nat \<Rightarrow> (char \<Rightarrow> bool) \<Rightarrow> string \<Rightarrow> bool" where
  "hex_groups 0 sep s = False"
| "hex_groups (Suc 0) sep s =
     (case s of [a, b] \<Rightarrow> is_hex_digit a \<and> is_hex_digit b | _ \<Rightarrow> False)"
| "hex_groups (Suc (Suc n)) sep s =
     (case s of
        a # b # c # t \<Rightarrow> is_hex_digit a \<and> is_hex_digit b \<and> sep c \<and> hex_groups (Suc n) sep t
      | _ \<Rightarrow> False)"

text \<open>Six groups separated uniformly by \<open>:\<close> or uniformly by \<open>-\<close> (the specification's
  format).\<close>

definition uniform_mac_format :: "string \<Rightarrow> bool" where
  "uniform_mac_format s =
     (hex_groups 6 (\<lambda>c. c = CHR '':'') s \<or> hex_groups 6 (\<lambda>c. c = CHR ''-'') s)"

text \<open>Six groups where each separator is \<open>:\<close> or \<open>-\<close>, independently.\<close>

definition mac_format :: "string \<Rightarrow> bool" where
  "mac_format s = hex_groups 6 (\<lambda>c. c = CHR '':'' \<or> c = CHR ''-'') s"

text \<open>\<open>lead_groups n s\<close>: \<open>s\<close> starts with \<open>n\<close> groups of two hexadecimal digits, each
  followed by a separator.\<close>

fun lead_groups :: "nat \<Rightarrow> string \<Rightarrow> bool" where
  "lead_groups 0 s = True"
| "lead_groups (Suc n) s =
     (case s of
        a # b # c # t \<Rightarrow>
          is_hex_digit a \<and> is_hex_digit b \<and> (c = CHR '':'' \<or> c = CHR ''-'') \<and> lead_groups n t
      | _ \<Rightarrow> False)"

section \<open>\<open>wol_gatway.py\<close>: configuration and the wake endpoint\<close>

subsection \<open>\<open>load_config\<close>\<close>

text \<open>The dictionary \<open>load_config\<close> returns.\<close>

record gateway_config =
  WOL_MAC_ADDRESS :: string
  BROADCAST_ADDRESS :: string
  SITE_URL :: string
  WAIT_TIME_SECONDS :: int
  PORT :: int

definition required_keys :: "string list" where
  "required_keys =
     [''WOL_MAC_ADDRESS'', ''BROADCAST_ADDRESS'', ''SITE_URL'', ''WAIT_TIME_SECONDS'', ''PORT'']"

text \<open>\<open>[key for key in required_keys if key not in user_config]\<close>; the membership
  test raises for a document that is neither a dict, a list nor a string.\<close>

fun missing_keys :: "json \<Rightarrow> string list \<Rightarrow> pyerr + string list" where
  "missing_keys user_config [] = Inr []"
| "missing_keys user_config (key # keys) =
     (case py_contains user_config key of
        Inl e \<Rightarrow> Inl e
      | Inr present \<Rightarrow>
          (case missing_keys user_config keys of
             Inl e \<Rightarrow> Inl e
           | Inr rest \<Rightarrow> Inr (if present then rest else key # rest)))"

text \<open>\<open>sep.join(xs)\<close>.\<close>

fun join :: "string \<Rightarrow> string list \<Rightarrow> string" where
  "join sep [] = []"
| "join sep [x] = x"
| "join sep (x # y # ys) = x @ sep @ join sep (y # ys)"

text \<open>\<open>try: int(raw)\<close> with \<open>except (TypeError, ValueError)\<close> raising
  \<open>ValueError(msg)\<close>; any other exception passes through.\<close>

definition checked_int :: "pylib \<Rightarrow> string \<Rightarrow> json \<Rightarrow> pyerr + int" where
  "checked_int lib msg raw =
     (case py_int lib raw of
        Inl TypeError \<Rightarrow> Inl (ValueError msg)
      | Inl (ValueError m) \<Rightarrow> Inl (ValueError msg)
      | Inl e \<Rightarrow> Inl e
      | Inr i \<Rightarrow> Inr i)"

text \<open>The part of \<open>load_config\<close> after the check for missing keys.\<close>

definition validate_fields :: "pylib \<Rightarrow> json \<Rightarrow> pyerr + gateway_config" where
  "validate_fields lib user_config =
     (case py_getitem user_config ''WOL_MAC_ADDRESS'' of Inl e \<Rightarrow> Inl e | Inr mac_raw \<Rightarrow>
     (case py_getitem user_config ''BROADCAST_ADDRESS'' of Inl e \<Rightarrow> Inl e | Inr broadcast_raw \<Rightarrow>
     (case py_getitem user_config ''SITE_URL'' of Inl e \<Rightarrow> Inl e | Inr site_raw \<Rightarrow>
     (case py_getitem user_config ''WAIT_TIME_SECONDS'' of Inl e \<Rightarrow> Inl e | Inr wait_raw \<Rightarrow>
     (let mac = py_strip (py_str lib mac_raw);
          broadcast = py_strip (py_str lib broadcast_raw);
          site = py_strip (py_str lib site_raw)
      in
      if mac = [] then Inl (ValueError ''WOL_MAC_ADDRESS must be set in the config file.'')
      else if broadcast = [] then
        Inl (ValueError ''BROADCAST_ADDRESS must be set in the config file.'')
      else if site = [] then Inl (ValueError ''SITE_URL must be set in the config file.'')
      else
        (case checked_int lib ''WAIT_TIME_SECONDS must be an integer.'' wait_raw of
           Inl e \<Rightarrow> Inl e
         | Inr wait \<Rightarrow>
             if wait \<le> 0 then Inl (ValueError ''WAIT_TIME_SECONDS must be greater than zero.'')
             else
               (case py_getitem user_config ''PORT'' of Inl e \<Rightarrow> Inl e | Inr port_raw \<Rightarrow>
               (case checked_int lib ''PORT must be an integer.'' port_raw of
                  Inl e \<Rightarrow> Inl e
                | Inr port \<Rightarrow>
                    if port \<le> 0 \<or> port > 65535 then
                      Inl (ValueError ''PORT must be between 1 and 65535.'')
                    else
                      Inr \<lparr>WOL_MAC_ADDRESS = mac, BROADCAST_ADDRESS = broadcast,
                            SITE_URL = site, WAIT_TIME_SECONDS = wait, PORT = port\<rparr>))))))))"

text \<open>The message of the parse error leaves out the parser's own text after the
  file name.\<close>

definition load_config :: "pylib \<Rightarrow> files \<Rightarrow> pyerr + gateway_config" where
  "load_config lib fs =
     (case config_file fs of
        None \<Rightarrow>
          Inl (FileNotFoundError
                ''Config file WOL_Brige.config is required. Run setup_wol.py to create it.'')
      | Some Not_json \<Rightarrow> Inl (ValueError ''Error parsing WOL_Brige.config'')
      | Some (Doc user_config) \<Rightarrow>
          (case missing_keys user_config required_keys of
             Inl e \<Rightarrow> Inl e
           | Inr missing \<Rightarrow>
               if missing \<noteq> [] then
                 Inl (ValueError (''Missing required config keys: '' @ join '', '' missing))
               else validate_fields lib user_config))"

subsection \<open>The waiting page\<close>

text \<open>The non-ASCII characters in the heading of the template, in UTF-8.\<close>

definition HEADING_ICON :: string where
  "HEADING_ICON = [CHR 0xEF, CHR 0xA3, CHR 0xBF, CHR 0xC3, CHR 0xBC, CHR 0xC3, CHR 0xB6, CHR 0xC3, CHR 0x84]"

definition WAITING_PAGE_HTML :: "gateway_config \<Rightarrow> string" where
  \<open>WAITING_PAGE_HTML cfg = concat
    [''\<newline>'',
     ''<!DOCTYPE html>\<newline>'',
     ''<html>\<newline>'',
     ''<head>\<newline>'',
     ''    <title>Server Starting...</title>\<newline>'',
     ''    <meta http-equiv="refresh" content="'',
     py_str_int (WAIT_TIME_SECONDS cfg),
     '';url='',
     SITE_URL cfg,
     ''">\<newline>'',
     ''    <style>\<newline>'',
     ''        body { font-family: sans-serif; text-align: center; margin-top: 50px; background-color: #f0f0f0; }\<newline>'',
     ''        .container { background: white; padding: 30px; border-radius: 10px; box-shadow: 0 4px 8px rgba(0,0,0,0.1); display: inline-block; }\<newline>'',
     ''        h1 { color: #333; }\<newline>'',
     ''        .loader { border: 8px solid #f3f3f3; border-top: 8px solid #3498db; border-radius: 50%; width: 50px; height: 50px; animation: spin 2s linear infinite; margin: 20px auto; }\<newline>'',
     ''        @keyframes spin { 0% { transform: rotate(0deg); } 100% { transform: rotate(360deg); } }\<newline>'',
     ''    </style>\<newline>'',
     ''</head>\<newline>'',
     ''<body>\<newline>'',
     ''    <div class="container">\<newline>'',
     ''        <h1>'',
     HEADING_ICON,
     '' Starting Server...</h1>\<newline>'',
     ''        <div class="loader"></div>\<newline>'',
     ''        <p>Sending Wake-on-LAN signal. Please wait approximately <strong>'',
     py_str_int (WAIT_TIME_SECONDS cfg),
     '' seconds</strong>.</p>\<newline>'',
     ''        <p>You will be automatically redirected to your domain.</p>\<newline>'',
     ''        <p>If the page fails to load, the server may still be booting. Please try refreshing.</p>\<newline>'',
     ''    </div>\<newline>'',
     ''</body>\<newline>'',
     ''</html>\<newline>'']\<close>

subsection \<open>Responses\<close>

text \<open>
  What a view function returns: \<open>Plain\<close> is \<open>return text, status\<close>, \<open>Html_page\<close> is
  \<open>Response(html, mimetype='text/html')\<close>, \<open>Redirect\<close> is \<open>redirect(url_for(endpoint))\<close>
  and the other constructors are \<open>render_template_string\<close> with a template of the
  admin panel and its arguments (the HTML of those templates is not modelled).
\<close>

datatype response =
    Plain string nat
  | Html_page string
  | Redirect string
  | Login_page "string option" bool
  | Dashboard_page json json
  | Server_form_page "json option" string "int option"
  | Setup_2fa_page string
  | Security_page bool

fun status_of :: "response \<Rightarrow> nat" where
  "status_of (Plain text code) = code"
| "status_of (Redirect endpoint) = 302"
| "status_of r = 200"

text \<open>An exception that leaves a view function is answered by Flask with status 500.\<close>

fun http_status :: "pyerr + response \<Rightarrow> nat" where
  "http_status (Inl e) = 500"
| "http_status (Inr r) = status_of r"

subsection \<open>\<open>find_wakeonlan_command\<close> and \<open>wake_server_and_redirect\<close>\<close>

text \<open>
  What the endpoint asks of the operating system: the \<open>SUDO_USER\<close> variable, the home
  directory, whether \<open>which name\<close> exits with 0 (\<open>None\<close> when running it raises),
  whether a path is an executable file, and the outcome of running the command.
\<close>

datatype run_result =
    Completed
  | CalledProcessError "string option"
  | OtherException string

record os_env =
  SUDO_USER :: "string option"
  home_dir :: string
  which_succeeds :: "string \<Rightarrow> bool option"
  executable_file :: "string \<Rightarrow> bool"
  subprocess_run :: "string list \<Rightarrow> run_result"

text \<open>\<open>os.path.join(a, b)\<close> for a relative \<open>b\<close>.\<close>

definition path_join :: "string \<Rightarrow> string \<Rightarrow> string" where
  "path_join a b = (if a = [] \<or> last a = CHR ''/'' then a @ b else a @ ''/'' @ b)"

definition possible_paths :: "os_env \<Rightarrow> string list" where
  "possible_paths env =
     (let user_local_bin =
            (case SUDO_USER env of
               Some sudo_user \<Rightarrow> ''/home/'' @ sudo_user @ ''/.local/bin/wakeonlan''
             | None \<Rightarrow>
                 path_join (path_join (path_join (home_dir env) ''.local'') ''bin'') ''wakeonlan'')
      in [''wakeonlan'', user_local_bin, ''/usr/bin/wakeonlan'', ''/usr/local/bin/wakeonlan'',
          ''/bin/wakeonlan''])"

fun try_paths :: "os_env \<Rightarrow> string list \<Rightarrow> string option" where
  "try_paths env [] = None"
| "try_paths env (cmd_path # rest) =
     (if CHR ''/'' \<notin> set cmd_path then
        (case which_succeeds env cmd_path of
           Some True \<Rightarrow> Some cmd_path
         | _ \<Rightarrow> try_paths env rest)
      else if executable_file env cmd_path then Some cmd_path
      else try_paths env rest)"

definition find_wakeonlan_command :: "os_env \<Rightarrow> string option" where
  "find_wakeonlan_command env = try_paths env (possible_paths env)"

definition not_found_message :: string where
  "not_found_message =
     ''WOL Error: '' @ [CHR 0x27] @ ''wakeonlan'' @ [CHR 0x27] @
       '' command not found. Please install it:\<newline>'' @
     ''  Debian/Ubuntu: sudo apt-get install wakeonlan\<newline>'' @
     ''  Fedora/RHEL: sudo dnf install wol\<newline>'' @
     ''  Or via pip: pip3 install --user wakeonlan''"

text \<open>
  The configuration is the one \<open>load_config\<close> returned when the module was loaded.
  The standard error of a failed command is \<open>None\<close> when its bytes do not decode.
\<close>

definition wake_server_and_redirect :: "gateway_config \<Rightarrow> os_env \<Rightarrow> pyerr + response" where
  "wake_server_and_redirect cfg env =
     (case find_wakeonlan_command env of
        None \<Rightarrow> Inr (Plain not_found_message 500)
      | Some wakeonlan_cmd \<Rightarrow>
          (case subprocess_run env
                  [wakeonlan_cmd, ''-i'', BROADCAST_ADDRESS cfg, WOL_MAC_ADDRESS cfg] of
             Completed \<Rightarrow> Inr (Html_page (WAITING_PAGE_HTML cfg))
           | CalledProcessError stderr \<Rightarrow>
               (case stderr of
                  None \<Rightarrow> Inl UnicodeDecodeError
                | Some text \<Rightarrow>
                    Inr (Plain (''WOL Error: Could not send packet. Check MAC address: '' @ text)
                          500))
           | OtherException text \<Rightarrow>
               Inr (Plain (''WOL Error: Unexpected error: '' @ text) 500)))"

section \<open>\<open>setup_wol.py\<close>: writing the configuration\<close>

text \<open>The dictionary \<open>new_config\<close> that \<open>main\<close> builds from the values it collected.\<close>

definition new_config :: "gateway_config \<Rightarrow> json" where
  "new_config c =
     JObj [(''WOL_MAC_ADDRESS'', JStr (WOL_MAC_ADDRESS c)),
           (''BROADCAST_ADDRESS'', JStr (BROADCAST_ADDRESS c)),
           (''SITE_URL'', JStr (SITE_URL c)),
           (''WAIT_TIME_SECONDS'', JInt (WAIT_TIME_SECONDS c)),
           (''PORT'', JInt (PORT c))]"

text \<open>\<open>json.dump(new_config, f, indent=4)\<close> into \<open>WOL_Brige.config\<close>, when the write
  succeeds (a failing write is reported and ends the setup).\<close>

definition save_config :: "gateway_config \<Rightarrow> files \<Rightarrow> files" where
  "save_config c fs = fs\<lparr>config_file := Some (Doc (new_config c))\<rparr>"

section \<open>The gateway in the words of the specification\<close>

text \<open>A string that is not empty and has no whitespace at either end.\<close>

definition trimmed :: "string \<Rightarrow> bool" where
  "trimmed s = (s \<noteq> [] \<and> \<not> py_isspace (hd s) \<and> \<not> py_isspace (last s))"

text \<open>
  A valid \<open>GatewayConfig\<close> in the words of the specification's data model: the MAC
  address in the 6-group format, non-empty broadcast address and site URL (a dotted
  quad and an absolute URL have no whitespace around them), a positive wait time and
  a port from 1 to 65535.
\<close>

definition valid_gateway_config :: "gateway_config \<Rightarrow> bool" where
  "valid_gateway_config c =
     (uniform_mac_format (WOL_MAC_ADDRESS c) \<and>
      trimmed (BROADCAST_ADDRESS c) \<and>
      trimmed (SITE_URL c) \<and>
      0 < WAIT_TIME_SECONDS c \<and>
      1 \<le> PORT c \<and> PORT c \<le> 65535)"

text \<open>
  The checks of \<open>load_config\<close> on a dict, stated at once: the five keys are present,
  the three strings are not blank, the wait time converts to a positive integer and
  the port to an integer from 1 to 65535.  The result holds the stripped strings and
  the converted integers.
\<close>

definition checked_config :: "pylib \<Rightarrow> (string \<times> json) list \<Rightarrow> gateway_config option" where
  "checked_config lib kvs =
     (case (map_of kvs ''WOL_MAC_ADDRESS'', map_of kvs ''BROADCAST_ADDRESS'',
            map_of kvs ''SITE_URL'', map_of kvs ''WAIT_TIME_SECONDS'', map_of kvs ''PORT'') of
        (Some mac_raw, Some broadcast_raw, Some site_raw, Some wait_raw, Some port_raw) \<Rightarrow>
          (case (py_int lib wait_raw, py_int lib port_raw) of
             (Inr wait, Inr port) \<Rightarrow>
               if py_strip (py_str lib mac_raw) \<noteq> [] \<and>
                  py_strip (py_str lib broadcast_raw) \<noteq> [] \<and>
                  py_strip (py_str lib site_raw) \<noteq> [] \<and>
                  0 < wait \<and> 1 \<le> port \<and> port \<le> 65535
               then Some \<lparr>WOL_MAC_ADDRESS = py_strip (py_str lib mac_raw),
                          BROADCAST_ADDRESS = py_strip (py_str lib broadcast_raw),
                          SITE_URL = py_strip (py_str lib site_raw),
                          WAIT_TIME_SECONDS = wait, PORT = port\<rparr>
               else None
           | _ \<Rightarrow> None)
      | _ \<Rightarrow> None)"

text \<open>The errors of \<open>load_config\<close> by kind.\<close>

fun is_not_found :: "pyerr + 'a \<Rightarrow> bool" where
  "is_not_found (Inl (FileNotFoundError m)) = True"
| "is_not_found r = False"

fun is_value_error :: "pyerr + 'a \<Rightarrow> bool" where
  "is_value_error (Inl (ValueError m)) = True"
| "is_value_error r = False"

fun is_failure :: "pyerr + 'a \<Rightarrow> bool" where
  "is_failure (Inl e) = True"
| "is_failure (Inr x) = False"

fun is_dict :: "json \<Rightarrow> bool" where
  "is_dict (JObj kvs) = True"
| "is_dict x = False"

text \<open>The send succeeds when the command is found and runs with exit status 0.\<close>

definition send_succeeds :: "gateway_config \<Rightarrow> os_env \<Rightarrow> bool" where
  "send_succeeds cfg env =
     (case find_wakeonlan_command env of
        None \<Rightarrow> False
      | Some cmd \<Rightarrow>
          subprocess_run env [cmd, ''-i'', BROADCAST_ADDRESS cfg, WOL_MAC_ADDRESS cfg] = Completed)"

text \<open>The tag of the waiting page that sends the browser to the site after the wait.\<close>

definition refresh_tag :: "gateway_config \<Rightarrow> string" where
  \<open>refresh_tag cfg =
     ''<meta http-equiv="refresh" content="'' @ py_str_int (WAIT_TIME_SECONDS cfg) @
     '';url='' @ SITE_URL cfg @ ''">''\<close>

fun is_infinite :: "json \<Rightarrow> bool" where
  "is_infinite (JFloat (Infinity neg)) = True"
| "is_infinite x = False"

text \<open>The wait time or the port of a dict is an infinite float.\<close>

definition infinite_field :: "(string \<times> json) list \<Rightarrow> bool" where
  "infinite_field kvs =
     ((case map_of kvs ''WAIT_TIME_SECONDS'' of None \<Rightarrow> False | Some raw \<Rightarrow> is_infinite raw) \<or>
      (case map_of kvs ''PORT'' of None \<Rightarrow> False | Some raw \<Rightarrow> is_infinite raw))"

section \<open>\<open>admin_panel.py\<close>\<close>

subsection \<open>Requests and sessions\<close>

datatype http_method = GET | POST

record request =
  req_method :: http_method
  form :: "(string \<times> string) list"

text \<open>\<open>request.form.get(key, default)\<close>.\<close>

definition form_get :: "request \<Rightarrow> string \<Rightarrow> string \<Rightarrow> string" where
  "form_get req key dflt = (case map_of (form req) key of None \<Rightarrow> dflt | Some v \<Rightarrow> v)"

text \<open>
  The Flask session: the value under \<open>admin_logged_in\<close> (\<open>None\<close> when the key is
  absent), the \<open>permanent\<close> flag and the flashed messages not yet shown, each with its
  category.
\<close>

record session =
  admin_logged_in :: "bool option"
  permanent :: bool
  flashes :: "(string \<times> string) list"

definition flash :: "string \<Rightarrow> string \<Rightarrow> session \<Rightarrow> session" where
  "flash message category sess = sess\<lparr>flashes := flashes sess @ [(message, category)]\<rparr>"

text \<open>The dashboard and the security page show the flashed messages, which removes
  them from the session.\<close>

definition show_flashes :: "session \<Rightarrow> session" where
  "show_flashes sess = sess\<lparr>flashes := []\<rparr>"

text \<open>The two states of the Auth Guard.\<close>

definition LoggedIn :: "session \<Rightarrow> bool" where
  "LoggedIn sess = (admin_logged_in sess = Some True)"

text \<open>A view returns a response or raises, and leaves the files and the session.\<close>

type_synonym view_result = "(pyerr + response) \<times> files \<times> session"

subsection \<open>The credentials file\<close>

definition default_config :: json where
  "default_config =
     JObj [(''admin_enabled'', JBool False),
           (''admin_username'', JStr ''admin''),
           (''admin_password_hash'', JStr ''''),
           (''2fa_enabled'', JBool False),
           (''2fa_secret'', JStr '''')]"

definition save_admin_config :: "json \<Rightarrow> files \<Rightarrow> files" where
  "save_admin_config config fs = fs\<lparr>admin_file := Some (Doc config)\<rparr>"

text \<open>The result and the files afterwards.  A file that does not parse gives the
  same dictionary as a missing file, without the write.\<close>

definition load_admin_config :: "files \<Rightarrow> json \<times> files" where
  "load_admin_config fs =
     (case admin_file fs of
        None \<Rightarrow> (default_config, save_admin_config default_config fs)
      | Some Not_json \<Rightarrow> (default_config, fs)
      | Some (Doc config) \<Rightarrow> (config, fs))"

definition hash_password :: "pylib \<Rightarrow> string \<Rightarrow> string" where
  "hash_password lib password = sha256_hexdigest lib password"

text \<open>The stored hash is whatever the file holds; a string equals only a string.\<close>

definition verify_password :: "pylib \<Rightarrow> string \<Rightarrow> json \<Rightarrow> bool" where
  "verify_password lib password password_hash = (JStr (hash_password lib password) = password_hash)"

text \<open>\<open>x[key] = value\<close> for a string key.\<close>

fun py_setitem :: "json \<Rightarrow> string \<Rightarrow> json \<Rightarrow> pyerr + json" where
  "py_setitem (JObj kvs) k v = Inr (JObj (AList.update k v kvs))"
| "py_setitem x k v = Inl TypeError"

subsection \<open>Time-based codes\<close>

text \<open>
  \<open>pyotp.TOTP(secret).verify(otp, valid_window=1)\<close> at the time step \<open>now\<close> (the
  current time divided by 30 seconds): the library compares the submitted code with
  the code of each step \<open>now + i\<close> for \<open>i\<close> in \<open>range(-1, 2)\<close>, in that order, and
  returns at the first match.  The comparison is the library's own.
\<close>

fun verify_window :: "pylib \<Rightarrow> string \<Rightarrow> string \<Rightarrow> int \<Rightarrow> int list \<Rightarrow> pyerr + bool" where
  "verify_window lib secret otp now [] = Inr False"
| "verify_window lib secret otp now (i # offsets) =
     (case totp_at lib secret (now + i) of
        None \<Rightarrow> Inl OtpError
      | Some code \<Rightarrow>
          if otp_equal lib otp code then Inr True
          else verify_window lib secret otp now offsets)"

definition totp_verify :: "pylib \<Rightarrow> json \<Rightarrow> string \<Rightarrow> int \<Rightarrow> pyerr + bool" where
  "totp_verify lib secret otp now =
     (case secret of
        JStr s \<Rightarrow> verify_window lib s otp now [- 1, 0, 1]
      | _ \<Rightarrow> Inl OtpError)"

subsection \<open>\<open>login_required\<close>, \<open>login\<close> and \<open>logout\<close>\<close>

definition disabled_response :: response where
  "disabled_response = Plain ''Admin panel is disabled. Enable it using setup_wol.py'' 403"

text \<open>The decorator: \<open>f\<close> is the decorated view with its arguments.\<close>

definition login_required ::
  "(files \<Rightarrow> session \<Rightarrow> view_result) \<Rightarrow> files \<Rightarrow> session \<Rightarrow> view_result" where
  "login_required f fs sess =
     (case load_admin_config fs of (admin_config, fs1) \<Rightarrow>
       (case py_get admin_config ''admin_enabled'' (JBool False) of
          Inl e \<Rightarrow> (Inl e, fs1, sess)
        | Inr enabled \<Rightarrow>
            if \<not> truthy enabled then (Inr disabled_response, fs1, sess)
            else if admin_logged_in sess \<noteq> Some True then
              (Inr (Redirect ''admin.login''), fs1, sess)
            else f fs1 sess))"

text \<open>\<open>username == admin_config['admin_username'] and verify_password(...)\<close>: the hash
  is only looked up when the username matches.  In \<open>login\<close> below, the value of
  \<open>admin_config.get('2fa_enabled', False)\<close> is read once, before the branches that use
  it: the first \<open>get\<close> has shown that \<open>admin_config\<close> is a dict, so the later ones
  cannot raise.\<close>

definition credentials_match :: "pylib \<Rightarrow> json \<Rightarrow> string \<Rightarrow> string \<Rightarrow> pyerr + bool" where
  "credentials_match lib admin_config username password =
     (case py_getitem admin_config ''admin_username'' of
        Inl e \<Rightarrow> Inl e
      | Inr stored_username \<Rightarrow>
          if JStr username \<noteq> stored_username then Inr False
          else
            (case py_getitem admin_config ''admin_password_hash'' of
               Inl e \<Rightarrow> Inl e
             | Inr password_hash \<Rightarrow> Inr (verify_password lib password password_hash)))"

definition login :: "pylib \<Rightarrow> int \<Rightarrow> request \<Rightarrow> files \<Rightarrow> session \<Rightarrow> view_result" where
  "login lib now req fs sess =
     (case load_admin_config fs of (admin_config, fs1) \<Rightarrow>
       (case py_get admin_config ''admin_enabled'' (JBool False) of
          Inl e \<Rightarrow> (Inl e, fs1, sess)
        | Inr enabled \<Rightarrow>
            if \<not> truthy enabled then (Inr disabled_response, fs1, sess)
            else
              (case py_get admin_config ''2fa_enabled'' (JBool False) of
                 Inl e \<Rightarrow> (Inl e, fs1, sess)
               | Inr two_fa \<Rightarrow>
                   if req_method req = POST then
                     (let username = form_get req ''username'' '''';
                          password = form_get req ''password'' '''';
                          totp_code = form_get req ''totp_code'' '''';
                          logged_in =
                            (Inr (Redirect ''admin.dashboard''), fs1,
                             sess\<lparr>admin_logged_in := Some True, permanent := True\<rparr>)
                      in
                      (case credentials_match lib admin_config username password of
                         Inl e \<Rightarrow> (Inl e, fs1, sess)
                       | Inr False \<Rightarrow>
                           (Inr (Login_page (Some ''Invalid username or password'')
                                  (truthy two_fa)),
                            fs1, sess)
                       | Inr True \<Rightarrow>
                           if truthy two_fa then
                             (case py_getitem admin_config ''2fa_secret'' of
                                Inl e \<Rightarrow> (Inl e, fs1, sess)
                              | Inr secret \<Rightarrow>
                                  (case totp_verify lib secret totp_code now of
                                     Inl e \<Rightarrow> (Inl e, fs1, sess)
                                   | Inr False \<Rightarrow>
                                       (Inr (Login_page (Some ''Invalid 2FA code'') True),
                                        fs1, sess)
                                   | Inr True \<Rightarrow> logged_in))
                           else logged_in))
                   else (Inr (Login_page None (truthy two_fa)), fs1, sess))))"

definition logout :: "files \<Rightarrow> session \<Rightarrow> view_result" where
  "logout fs sess = (Inr (Redirect ''admin.login''), fs, sess\<lparr>admin_logged_in := None\<rparr>)"

subsection \<open>The roster views\<close>

text \<open>\<open>with open(CONFIG_FILE, 'r') as f: config = json.load(f)\<close>.\<close>

definition read_config :: "files \<Rightarrow> pyerr + json" where
  "read_config fs =
     (case config_file fs of
        None \<Rightarrow> Inl (FileNotFoundError ''No such file or directory: WOL_Brige.config'')
      | Some Not_json \<Rightarrow> Inl JSONDecodeError
      | Some (Doc config) \<Rightarrow> Inr config)"

text \<open>\<open>with open(CONFIG_FILE, 'w') as f: json.dump(config, f, indent=4)\<close>.\<close>

definition write_config :: "json \<Rightarrow> files \<Rightarrow> files" where
  "write_config config fs = fs\<lparr>config_file := Some (Doc config)\<rparr>"

definition dashboard_body :: "files \<Rightarrow> session \<Rightarrow> view_result" where
  "dashboard_body fs sess =
     (case config_file fs of
        None \<Rightarrow> (Inr (Plain ''Configuration file not found. Run setup_wol.py first.'' 500), fs, sess)
      | Some Not_json \<Rightarrow> (Inr (Plain ''Error loading configuration file.'' 500), fs, sess)
      | Some (Doc config) \<Rightarrow>
          (case py_get config ''SERVERS'' (JList []) of
             Inl e \<Rightarrow> (Inl e, fs, sess)
           | Inr servers \<Rightarrow>
               (case py_get config ''PORT'' (JInt 5000) of
                  Inl e \<Rightarrow> (Inl e, fs, sess)
                | Inr port \<Rightarrow> (Inr (Dashboard_page servers port), fs, show_flashes sess))))"

definition dashboard :: "files \<Rightarrow> session \<Rightarrow> view_result" where
  "dashboard = login_required dashboard_body"

text \<open>
  The dictionary both \<open>add_server\<close> and \<open>edit_server\<close> build from the form.  Only
  \<open>int(...)\<close> can raise; a missing \<open>wait_time\<close> is the integer 60.
\<close>

definition form_wait_time :: "pylib \<Rightarrow> request \<Rightarrow> pyerr + int" where
  "form_wait_time lib req =
     (case map_of (form req) ''wait_time'' of
        None \<Rightarrow> Inr 60
      | Some text \<Rightarrow> py_int lib (JStr text))"

definition server_entry :: "request \<Rightarrow> int \<Rightarrow> json" where
  "server_entry req wait =
     JObj [(''NAME'', JStr (py_strip (form_get req ''name'' ''''))),
           (''WOL_MAC_ADDRESS'', JStr (py_strip (form_get req ''mac'' ''''))),
           (''BROADCAST_ADDRESS'', JStr (py_strip (form_get req ''broadcast'' ''255.255.255.255''))),
           (''SITE_URL'', JStr (py_strip (form_get req ''url'' ''''))),
           (''WAIT_TIME_SECONDS'', JInt wait)]"


definition updated_message :: string where
  "updated_message =
     ''Server updated successfully! Restart the application for changes to take effect.''"



text \<open>\<open>len(x)\<close>.\<close>

fun py_len :: "json \<Rightarrow> pyerr + nat" where
  "py_len (JList xs) = Inr (length xs)"
| "py_len (JStr s) = Inr (length s)"
| "py_len (JObj kvs) = Inr (length kvs)"
| "py_len x = Inl TypeError"

text \<open>
  \<open>x[i]\<close> for an integer \<open>i\<close> with \<open>0 <= i < len(x)\<close> (the views check the range
  first): an element of a list, a character of a string; a dict read from JSON has
  no integer key.
\<close>

fun py_index :: "json \<Rightarrow> nat \<Rightarrow> pyerr + json" where
  "py_index (JList xs) i = Inr (xs ! i)"
| "py_index (JStr s) i = Inr (JStr [s ! i])"
| "py_index (JObj kvs) i = Inl (KeyError (py_str_int (int i)))"
| "py_index x i = Inl TypeError"

text \<open>
  \<open>x[i] = v\<close> for an integer \<open>i\<close> in the range.  In a dict the integer becomes a
  key, which \<open>json.dump\<close> writes as its decimal string.
\<close>

fun py_assign_index :: "json \<Rightarrow> nat \<Rightarrow> json \<Rightarrow> pyerr + json" where
  "py_assign_index (JList xs) i v = Inr (JList (xs[i := v]))"
| "py_assign_index (JObj kvs) i v = Inr (JObj (AList.update (py_str_int (int i)) v kvs))"
| "py_assign_index x i v = Inl TypeError"

definition invalid_id_response :: response where
  "invalid_id_response = Plain ''Invalid server ID'' 404"

text \<open>
  \<open>servers\<close> is the list inside \<open>config\<close> when the key is there, so an assignment
  to it changes \<open>config\<close>; when the key is missing \<open>servers\<close> is a new empty list
  and every index is out of range.
\<close>

definition edit_server_body ::
  "pylib \<Rightarrow> int \<Rightarrow> request \<Rightarrow> files \<Rightarrow> session \<Rightarrow> view_result" where
  "edit_server_body lib server_id req fs sess =
     (case read_config fs of
        Inl e \<Rightarrow> (Inl e, fs, sess)
      | Inr config \<Rightarrow>
          (case py_get config ''SERVERS'' (JList []) of
             Inl e \<Rightarrow> (Inl e, fs, sess)
           | Inr servers \<Rightarrow>
               (case py_len servers of
                  Inl e \<Rightarrow> (Inl e, fs, sess)
                | Inr n \<Rightarrow>
                    if server_id < 0 \<or> server_id \<ge> int n then
                      (Inr invalid_id_response, fs, sess)
                    else if req_method req = POST then
                      (case form_wait_time lib req of
                         Inl e \<Rightarrow> (Inl e, fs, sess)
                       | Inr wait \<Rightarrow>
                           (case py_assign_index servers (nat server_id)
                                   (server_entry req wait) of
                              Inl e \<Rightarrow> (Inl e, fs, sess)
                            | Inr servers' \<Rightarrow>
                                (case py_setitem config ''SERVERS'' servers' of
                                   Inl e \<Rightarrow> (Inl e, fs, sess)
                                 | Inr config' \<Rightarrow>
                                     (Inr (Redirect ''admin.dashboard''),
                                      write_config config' fs,
                                      flash updated_message ''success'' sess))))
                    else
                      (case py_index servers (nat server_id) of
                         Inl e \<Rightarrow> (Inl e, fs, sess)
                       | Inr server \<Rightarrow>
                           (Inr (Server_form_page (Some server) ''Edit'' (Some server_id)),
                            fs, sess)))))"

definition edit_server ::
  "pylib \<Rightarrow> int \<Rightarrow> request \<Rightarrow> files \<Rightarrow> session \<Rightarrow> view_result" where
  "edit_server lib server_id req = login_required (edit_server_body lib server_id req)"

text \<open>\<open>servers.pop(i)\<close>; only a list is ever popped, because \<open>servers[i]['NAME']\<close>
  has raised for a string or a dict.\<close>

fun py_pop :: "json \<Rightarrow> nat \<Rightarrow> pyerr + json" where
  "py_pop (JList xs) i = Inr (JList (take i xs @ drop (Suc i) xs))"
| "py_pop x i = Inl TypeError"

definition deleted_message :: "pylib \<Rightarrow> json \<Rightarrow> string" where
  \<open>deleted_message lib deleted_name =
     ''Server "'' @ py_str lib deleted_name @
     ''" deleted successfully! Restart the application for changes to take effect.''\<close>

definition delete_server_body :: "pylib \<Rightarrow> int \<Rightarrow> files \<Rightarrow> session \<Rightarrow> view_result" where
  "delete_server_body lib server_id fs sess =
     (case read_config fs of
        Inl e \<Rightarrow> (Inl e, fs, sess)
      | Inr config \<Rightarrow>
          (case py_get config ''SERVERS'' (JList []) of
             Inl e \<Rightarrow> (Inl e, fs, sess)
           | Inr servers \<Rightarrow>
               (case py_len servers of
                  Inl e \<Rightarrow> (Inl e, fs, sess)
                | Inr n \<Rightarrow>
                    if server_id < 0 \<or> server_id \<ge> int n then
                      (Inr invalid_id_response, fs, sess)
                    else
                      (case py_index servers (nat server_id) of
                         Inl e \<Rightarrow> (Inl e, fs, sess)
                       | Inr server \<Rightarrow>
                           (case py_getitem server ''NAME'' of
                              Inl e \<Rightarrow> (Inl e, fs, sess)
                            | Inr deleted_name \<Rightarrow>
                                (case py_pop servers (nat server_id) of
                                   Inl e \<Rightarrow> (Inl e, fs, sess)
                                 | Inr servers' \<Rightarrow>
                                     (case py_setitem config ''SERVERS'' servers' of
                                        Inl e \<Rightarrow> (Inl e, fs, sess)
                                      | Inr config' \<Rightarrow>
                                          (Inr (Redirect ''admin.dashboard''),
                                           write_config config' fs,
                                           flash (deleted_message lib deleted_name) ''success''
                                             sess))))))))"

definition delete_server :: "pylib \<Rightarrow> int \<Rightarrow> files \<Rightarrow> session \<Rightarrow> view_result" where
  "delete_server lib server_id = login_required (delete_server_body lib server_id)"

subsection \<open>\<open>security_settings\<close>\<close>

text \<open>
  The module reads the global name \<open>TOTP_AVAILABLE\<close> in \<open>security_settings\<close> and in
  \<open>generate_qr_code\<close> and binds it nowhere (it imports \<open>pyotp\<close> and \<open>qrcode\<close>
  without a guard), so the name has no value and reading it raises \<open>NameError\<close>.
\<close>

definition TOTP_AVAILABLE :: "bool option" where
  "TOTP_AVAILABLE = None"

definition security_redirect :: response where
  "security_redirect = Redirect ''admin.security_settings''"

text \<open>The branch \<open>action == 'change_password'\<close>; it falls through to the redirect at
  the end of the POST branch.\<close>

definition change_password :: "pylib \<Rightarrow> json \<Rightarrow> request \<Rightarrow> files \<Rightarrow> session \<Rightarrow> view_result" where
  "change_password lib admin_config req fs sess =
     (let current_password = form_get req ''current_password'' '''';
          new_password = form_get req ''new_password'' '''';
          confirm_password = form_get req ''confirm_password'' ''''
      in
      case py_getitem admin_config ''admin_password_hash'' of
        Inl e \<Rightarrow> (Inl e, fs, sess)
      | Inr password_hash \<Rightarrow>
          if \<not> verify_password lib current_password password_hash then
            (Inr security_redirect, fs, flash ''Current password is incorrect'' ''error'' sess)
          else if new_password \<noteq> confirm_password then
            (Inr security_redirect, fs, flash ''New passwords do not match'' ''error'' sess)
          else if length new_password < 6 then
            (Inr security_redirect, fs,
             flash ''Password must be at least 6 characters'' ''error'' sess)
          else
            (case py_setitem admin_config ''admin_password_hash''
                    (JStr (hash_password lib new_password)) of
               Inl e \<Rightarrow> (Inl e, fs, sess)
             | Inr admin_config' \<Rightarrow>
                 (Inr security_redirect, save_admin_config admin_config' fs,
                  flash ''Password changed successfully'' ''success'' sess)))"

text \<open>
  The branch \<open>action == 'enable_2fa'\<close>.  \<open>fresh_secret\<close> is what
  \<open>pyotp.random_base32()\<close> returns.  The QR code is drawn by \<open>generate_qr_code\<close>,
  which reads \<open>TOTP_AVAILABLE\<close> again.
\<close>

definition enable_2fa :: "string \<Rightarrow> json \<Rightarrow> files \<Rightarrow> session \<Rightarrow> view_result" where
  "enable_2fa fresh_secret admin_config fs sess =
     (case TOTP_AVAILABLE of
        None \<Rightarrow> (Inl (NameError ''TOTP_AVAILABLE''), fs, sess)
      | Some available \<Rightarrow>
          if \<not> available then
            (Inr security_redirect, fs,
             flash
               ''2FA requires pyotp and qrcode packages. Install with: pip3 install pyotp qrcode pillow''
               ''error'' sess)
          else
            (case py_setitem admin_config ''2fa_secret'' (JStr fresh_secret) of
               Inl e \<Rightarrow> (Inl e, fs, sess)
             | Inr c1 \<Rightarrow>
                 (case py_setitem c1 ''2fa_enabled'' (JBool False) of
                    Inl e \<Rightarrow> (Inl e, fs, sess)
                  | Inr c2 \<Rightarrow>
                      (case py_getitem c2 ''admin_username'' of
                         Inl e \<Rightarrow> (Inl e, save_admin_config c2 fs, sess)
                       | Inr name \<Rightarrow>
                           (Inr (Setup_2fa_page fresh_secret), save_admin_config c2 fs, sess)))))"

text \<open>The branch \<open>action == 'verify_2fa'\<close>.\<close>

definition verify_2fa :: "pylib \<Rightarrow> int \<Rightarrow> json \<Rightarrow> request \<Rightarrow> files \<Rightarrow> session \<Rightarrow> view_result" where
  "verify_2fa lib now admin_config req fs sess =
     (let totp_code = form_get req ''totp_code'' '''' in
      case py_getitem admin_config ''2fa_secret'' of
        Inl e \<Rightarrow> (Inl e, fs, sess)
      | Inr secret \<Rightarrow>
          (case totp_verify lib secret totp_code now of
             Inl e \<Rightarrow> (Inl e, fs, sess)
           | Inr True \<Rightarrow>
               (case py_setitem admin_config ''2fa_enabled'' (JBool True) of
                  Inl e \<Rightarrow> (Inl e, fs, sess)
                | Inr admin_config' \<Rightarrow>
                    (Inr security_redirect, save_admin_config admin_config' fs,
                     flash ''2FA enabled successfully'' ''success'' sess))
           | Inr False \<Rightarrow>
               (Inr security_redirect, fs,
                flash ''Invalid 2FA code. Please try again.'' ''error'' sess)))"

text \<open>The branch \<open>action == 'disable_2fa'\<close>.\<close>

definition disable_2fa :: "pylib \<Rightarrow> json \<Rightarrow> request \<Rightarrow> files \<Rightarrow> session \<Rightarrow> view_result" where
  "disable_2fa lib admin_config req fs sess =
     (let password = form_get req ''password'' '''' in
      case py_getitem admin_config ''admin_password_hash'' of
        Inl e \<Rightarrow> (Inl e, fs, sess)
      | Inr password_hash \<Rightarrow>
          if verify_password lib password password_hash then
            (case py_setitem admin_config ''2fa_enabled'' (JBool False) of
               Inl e \<Rightarrow> (Inl e, fs, sess)
             | Inr c1 \<Rightarrow>
                 (case py_setitem c1 ''2fa_secret'' (JStr '''') of
                    Inl e \<Rightarrow> (Inl e, fs, sess)
                  | Inr c2 \<Rightarrow>
                      (Inr security_redirect, save_admin_config c2 fs,
                       flash ''2FA disabled successfully'' ''success'' sess)))
          else (Inr security_redirect, fs, flash ''Incorrect password'' ''error'' sess))"

text \<open>\<open>now\<close> is the current time step and \<open>fresh_secret\<close> the secret the library
  would draw.\<close>

definition security_settings_body ::
  "pylib \<Rightarrow> int \<Rightarrow> string \<Rightarrow> request \<Rightarrow> files \<Rightarrow> session \<Rightarrow> view_result" where
  "security_settings_body lib now fresh_secret req fs sess =
     (case load_admin_config fs of (admin_config, fs1) \<Rightarrow>
      if req_method req = POST then
        (case map_of (form req) ''action'' of
           None \<Rightarrow> (Inr security_redirect, fs1, sess)
         | Some action \<Rightarrow>
             if action = ''change_password'' then change_password lib admin_config req fs1 sess
             else if action = ''enable_2fa'' then enable_2fa fresh_secret admin_config fs1 sess
             else if action = ''verify_2fa'' then verify_2fa lib now admin_config req fs1 sess
             else if action = ''disable_2fa'' then disable_2fa lib admin_config req fs1 sess
             else (Inr security_redirect, fs1, sess))
      else
        (case py_get admin_config ''2fa_enabled'' (JBool False) of
           Inl e \<Rightarrow> (Inl e, fs1, sess)
         | Inr two_fa \<Rightarrow> (Inr (Security_page (truthy two_fa)), fs1, show_flashes sess)))"

definition security_settings ::
  "pylib \<Rightarrow> int \<Rightarrow> string \<Rightarrow> request \<Rightarrow> files \<Rightarrow> session \<Rightarrow> view_result" where
  "security_settings lib now fresh_secret req =
     login_required (security_settings_body lib now fresh_secret req)"

subsection \<open>The conditions of the specification\<close>

text \<open>
  The submitted code matches, in the library's comparison, the code of the secret at the
  previous, the current or the next time step (the library having computed the codes of
  the steps it tried before).
\<close>

definition step_matches :: "pylib \<Rightarrow> string \<Rightarrow> string \<Rightarrow> int \<Rightarrow> bool" where
  "step_matches lib secret otp step =
     (case totp_at lib secret step of None \<Rightarrow> False | Some code \<Rightarrow> otp_equal lib otp code)"

definition code_in_window :: "pylib \<Rightarrow> string \<Rightarrow> string \<Rightarrow> int \<Rightarrow> bool" where
  "code_in_window lib secret otp now =
     (step_matches lib secret otp (now - 1) \<or>
      totp_at lib secret (now - 1) \<noteq> None \<and> step_matches lib secret otp now \<or>
      totp_at lib secret (now - 1) \<noteq> None \<and> totp_at lib secret now \<noteq> None \<and>
        step_matches lib secret otp (now + 1))"

text \<open>The submitted code matches the code of none of the three steps.\<close>

definition code_outside_window :: "pylib \<Rightarrow> string \<Rightarrow> string \<Rightarrow> int \<Rightarrow> bool" where
  "code_outside_window lib secret otp now =
     list_all
       (\<lambda>i. case totp_at lib secret (now + i) of
               None \<Rightarrow> False
             | Some code \<Rightarrow> \<not> otp_equal lib otp code)
       [- 1, 0, 1]"

text \<open>A stored value under a key with a default, as \<open>dict.get\<close> reads it.\<close>

definition dict_get :: "(string \<times> json) list \<Rightarrow> string \<Rightarrow> json \<Rightarrow> json" where
  "dict_get kvs k d = (case map_of kvs k of None \<Rightarrow> d | Some v \<Rightarrow> v)"

text \<open>
  The conditions of the login transition: the credentials file holds a record with the
  panel enabled, the submitted username is the stored one, the SHA-256 digest of the
  submitted password is the stored hash, and the second factor is disabled or the
  submitted code is in the window of the stored secret.
\<close>

definition second_factor_passes :: "pylib \<Rightarrow> int \<Rightarrow> request \<Rightarrow> (string \<times> json) list \<Rightarrow> bool" where
  "second_factor_passes lib now req kvs =
     (if truthy (dict_get kvs ''2fa_enabled'' (JBool False)) then
        (case map_of kvs ''2fa_secret'' of
           Some (JStr secret) \<Rightarrow> code_in_window lib secret (form_get req ''totp_code'' '''') now
         | _ \<Rightarrow> False)
      else True)"

definition login_conditions :: "pylib \<Rightarrow> int \<Rightarrow> request \<Rightarrow> files \<Rightarrow> bool" where
  "login_conditions lib now req fs =
     (case admin_file fs of
        Some (Doc (JObj kvs)) \<Rightarrow>
          truthy (dict_get kvs ''admin_enabled'' (JBool False)) \<and>
          map_of kvs ''admin_username'' = Some (JStr (form_get req ''username'' '''')) \<and>
          map_of kvs ''admin_password_hash'' =
            Some (JStr (sha256_hexdigest lib (form_get req ''password'' ''''))) \<and>
          second_factor_passes lib now req kvs
      | _ \<Rightarrow> False)"


text \<open>The panel is enabled: the credentials file holds a record whose
  \<open>admin_enabled\<close> is true.\<close>

definition panel_enabled :: "files \<Rightarrow> bool" where
  "panel_enabled fs =
     (case admin_file fs of
        Some (Doc (JObj kvs)) \<Rightarrow> truthy (dict_get kvs ''admin_enabled'' (JBool False))
      | _ \<Rightarrow> False)"

section \<open>Concrete inputs for the examples\<close>

text \<open>
  The library functions at the inputs the examples use: the SHA-256 digests of the
  passwords \<open>hunter2\<close> and \<open>wrong\<close>, and the codes of the secret
  \<open>JBSWY3DPEHPK3PXP\<close> at the time steps 56666665 to 56666669.  No example calls them
  at another input.  The codes of the examples are ASCII digits, on which the library's
  comparison is equality.  The digit limit is the interpreter's default.
\<close>

definition example_sha256 :: "string \<Rightarrow> string" where
  "example_sha256 p =
     (if p = ''hunter2'' then
        ''f52fbd32b2b3b86ff88ef6c490628285f482af15ddcb29541f94bcf526a3f6c7''
      else if p = ''wrong'' then
        ''8810ad581e59f2bc3928b261707a71308f7e139eb04820366dc4d5c18d980225''
      else [])"

definition example_totp :: "string \<Rightarrow> int \<Rightarrow> string option" where
  "example_totp secret step =
     (if secret = ''JBSWY3DPEHPK3PXP'' then
        map_of [(56666665, ''822542''), (56666666, ''324550''), (56666667, ''367665''),
                (56666668, ''870960''), (56666669, ''656781'')] step
      else None)"

definition example_lib :: pylib where
  "example_lib =
     \<lparr>sha256_hexdigest = example_sha256, totp_at = example_totp,
      otp_equal = (\<lambda>a b. a = b), py_repr = (\<lambda>x. []), int_max_str_digits = 4300\<rparr>"

definition example_config :: gateway_config where
  "example_config =
     \<lparr>WOL_MAC_ADDRESS = ''00:11:22:33:44:55'', BROADCAST_ADDRESS = ''255.255.255.255'',
      SITE_URL = ''http://nas.local'', WAIT_TIME_SECONDS = 30, PORT = 5000\<rparr>"

definition no_files :: files where
  "no_files = \<lparr>config_file = None, admin_file = None\<rparr>"

text \<open>An operating system in which \<open>wakeonlan\<close> is on the path and sends the packet;
  one in which it is found and fails; one in which it is not installed.\<close>

definition env_sending :: os_env where
  "env_sending =
     \<lparr>SUDO_USER = None, home_dir = ''/root'', which_succeeds = (\<lambda>c. Some True),
      executable_file = (\<lambda>p. False), subprocess_run = (\<lambda>args. Completed)\<rparr>"

definition env_failing :: os_env where
  "env_failing =
     \<lparr>SUDO_USER = None, home_dir = ''/root'', which_succeeds = (\<lambda>c. Some True),
      executable_file = (\<lambda>p. False),
      subprocess_run = (\<lambda>args. CalledProcessError (Some ''network unreachable''))\<rparr>"

definition env_missing :: os_env where
  "env_missing =
     \<lparr>SUDO_USER = None, home_dir = ''/root'', which_succeeds = (\<lambda>c. Some False),
      executable_file = (\<lambda>p. False), subprocess_run = (\<lambda>args. Completed)\<rparr>"

text \<open>An operating system in which the command is found and fails, and what it wrote to
  its standard error is not valid UTF-8 (a message in a Latin-1 locale, say).\<close>

definition env_undecodable :: os_env where
  "env_undecodable =
     \<lparr>SUDO_USER = None, home_dir = ''/root'', which_succeeds = (\<lambda>c. Some True),
      executable_file = (\<lambda>p. False), subprocess_run = (\<lambda>args. CalledProcessError None)\<rparr>"

text \<open>A document whose MAC address is not in the format and whose wait time is the
  float 1.5; a document whose port is out of range.\<close>

definition example_document :: json where
  "example_document =
     JObj [(''WOL_MAC_ADDRESS'', JStr ''not-a-mac''),
           (''BROADCAST_ADDRESS'', JStr ''255.255.255.255''),
           (''SITE_URL'', JStr ''http://nas.local''),
           (''WAIT_TIME_SECONDS'', JFloat (Finite 3 (- 1))),
           (''PORT'', JInt 5000)]"

definition example_document_bad_port :: json where
  "example_document_bad_port =
     JObj [(''WOL_MAC_ADDRESS'', JStr ''00:11:22:33:44:55''),
           (''BROADCAST_ADDRESS'', JStr ''255.255.255.255''),
           (''SITE_URL'', JStr ''http://nas.local''),
           (''WAIT_TIME_SECONDS'', JInt 30),
           (''PORT'', JInt 70000)]"

text \<open>A document whose wait time is the string of a separator character (code point 28)
  and the digit 5: \<open>str.strip\<close> would remove the separator, \<open>int\<close> refuses it.\<close>

definition example_document_bad_wait :: json where
  "example_document_bad_wait =
     JObj [(''WOL_MAC_ADDRESS'', JStr ''00:11:22:33:44:55''),
           (''BROADCAST_ADDRESS'', JStr ''255.255.255.255''),
           (''SITE_URL'', JStr ''http://nas.local''),
           (''WAIT_TIME_SECONDS'', JStr [CHR 0x1C, CHR ''5'']),
           (''PORT'', JInt 5000)]"

text \<open>Credentials with the panel and the second factor enabled; the password is
  \<open>hunter2\<close>.\<close>

definition example_credentials :: json where
  "example_credentials =
     JObj [(''admin_enabled'', JBool True),
           (''admin_username'', JStr ''admin''),
           (''admin_password_hash'',
            JStr ''f52fbd32b2b3b86ff88ef6c490628285f482af15ddcb29541f94bcf526a3f6c7''),
           (''2fa_enabled'', JBool True),
           (''2fa_secret'', JStr ''JBSWY3DPEHPK3PXP'')]"

definition example_entry :: json where
  "example_entry =
     JObj [(''NAME'', JStr ''NAS''),
           (''WOL_MAC_ADDRESS'', JStr ''00:11:22:33:44:55''),
           (''BROADCAST_ADDRESS'', JStr ''255.255.255.255''),
           (''SITE_URL'', JStr ''http://nas.local''),
           (''WAIT_TIME_SECONDS'', JInt 30)]"

definition example_roster :: json where
  "example_roster = JObj [(''PORT'', JInt 5000), (''SERVERS'', JList [example_entry])]"

definition example_files :: files where
  "example_files =
     \<lparr>config_file = Some (Doc example_roster), admin_file = Some (Doc example_credentials)\<rparr>"

definition logged_out_session :: session where
  "logged_out_session = \<lparr>admin_logged_in = None, permanent = False, flashes = []\<rparr>"

definition logged_in_session :: session where
  "logged_in_session = \<lparr>admin_logged_in = Some True, permanent = True, flashes = []\<rparr>"

definition login_request :: "string \<Rightarrow> string \<Rightarrow> string \<Rightarrow> request" where
  "login_request username password code =
     \<lparr>req_method = POST,
      form = [(''username'', username), (''password'', password), (''totp_code'', code)]\<rparr>"

text \<open>A submission whose MAC address is not an address and whose wait time is
  negative.\<close>

definition bad_server_request :: request where
  "bad_server_request =
     \<lparr>req_method = POST,
      form = [(''name'', ''pc''), (''mac'', ''zz''), (''broadcast'', ''255.255.255.255''),
              (''url'', ''http://pc.local''), (''wait_time'', ''-5'')]\<rparr>"



definition enable_2fa_request :: request where
  "enable_2fa_request = \<lparr>req_method = POST, form = [(''action'', ''enable_2fa'')]\<rparr>"

section \<open>MAC validation: what the pattern accepts\<close>

lemma char_eq_nat: "(c = d) = ((of_char c :: nat) = of_char d)"
  by simp

lemma in_class_hex:
  "in_class [(CHR ''0'', CHR ''9''), (CHR ''A'', CHR ''F''), (CHR ''a'', CHR ''f'')] c =
     is_hex_digit c"
proof -
  define n where "n = (of_char c :: nat)"
  have "(48 \<le> n \<and> n \<le> 57 \<or> 65 \<le> n \<and> n \<le> 70 \<or> 97 \<le> n \<and> n \<le> 102) =
        (n = 48 \<or> n = 49 \<or> n = 50 \<or> n = 51 \<or> n = 52 \<or> n = 53 \<or> n = 54 \<or> n = 55 \<or>
         n = 56 \<or> n = 57 \<or> n = 97 \<or> n = 98 \<or> n = 99 \<or> n = 100 \<or> n = 101 \<or> n = 102 \<or>
         n = 65 \<or> n = 66 \<or> n = 67 \<or> n = 68 \<or> n = 69 \<or> n = 70)"
    by arith
  then show ?thesis
    unfolding in_class_def is_hex_digit_def n_def
    by (simp add: char_eq_nat [of c])
qed

lemma in_class_sep:
  "in_class [(CHR '':'', CHR '':''), (CHR ''-'', CHR ''-'')] c = (c = CHR '':'' \<or> c = CHR ''-'')"
  unfolding in_class_def
  by (auto simp: char_eq_nat [of c])

lemma rx_hex_class:
  "rx hex_class (p, s) =
     (case s of [] \<Rightarrow> [] | c # t \<Rightarrow> if is_hex_digit c then [(Suc p, t)] else [])"
  by (simp add: hex_class_def in_class_hex)

lemma rx_sep_class:
  "rx sep_class (p, s) =
     (case s of
        [] \<Rightarrow> []
      | c # t \<Rightarrow> if c = CHR '':'' \<or> c = CHR ''-'' then [(Suc p, t)] else [])"
  by (simp add: sep_class_def in_class_sep)

lemma rx_hex_pair:
  "rx hex_pair (p, s) =
     (case s of
        a # b # t \<Rightarrow> if is_hex_digit a \<and> is_hex_digit b then [(Suc (Suc p), t)] else []
      | _ \<Rightarrow> [])"
  by (simp add: hex_pair_def numeral_2_eq_2 rx_hex_class split: list.splits)

lemma rx_mac_group:
  "rx mac_group (p, s) =
     (case s of
        a # b # c # t \<Rightarrow>
          if is_hex_digit a \<and> is_hex_digit b \<and> (c = CHR '':'' \<or> c = CHR ''-'')
          then [(p + 3, t)] else []
      | _ \<Rightarrow> [])"
  by (simp add: mac_group_def rx_hex_pair rx_sep_class split: list.splits)

lemma rx_times_mac_group:
  "rx_times n (rx mac_group) (p, s) =
     (if lead_groups n s then [(p + 3 * n, drop (3 * n) s)] else [])"
proof (induction n arbitrary: p s)
  case 0
  show ?case by simp
next
  case (Suc n)
  show ?case
    by (auto simp: rx_mac_group Suc.IH numeral_3_eq_3 split: list.splits)
qed

lemma rx_last_group:
  "(rx (Cat hex_pair Dollar) (p, s) \<noteq> []) =
     (case s of
         [a, b] \<Rightarrow> is_hex_digit a \<and> is_hex_digit b
       | [a, b, c] \<Rightarrow> is_hex_digit a \<and> is_hex_digit b \<and> c = CHR 0x0A
       | _ \<Rightarrow> False)"
  by (auto simp: rx_hex_pair split: list.splits)

text \<open>The pattern matches five leading groups and a last group, after which the string
  ends or has one newline left.\<close>

lemma re_match_MAC_PATTERN:
  "re_match MAC_PATTERN s =
     (lead_groups 5 s \<and>
      (case drop 15 s of
         [a, b] \<Rightarrow> is_hex_digit a \<and> is_hex_digit b
       | [a, b, c] \<Rightarrow> is_hex_digit a \<and> is_hex_digit b \<and> c = CHR 0x0A
       | _ \<Rightarrow> False))"
proof -
  have "re_match MAC_PATTERN s =
        (lead_groups 5 s \<and> rx (Cat hex_pair Dollar) (15, drop 15 s) \<noteq> [])"
    by (simp add: re_match_def MAC_PATTERN_def rx_times_mac_group del: rx.simps(2)
          add: rx.simps(2) [of Caret] rx.simps(2) [of "Repeat 5 mac_group"])
  then show ?thesis
    by (simp only: rx_last_group)
qed

lemma hex_groups_lead_groups:
  "hex_groups (Suc n) (\<lambda>c. c = CHR '':'' \<or> c = CHR ''-'') s =
     (lead_groups n s \<and>
      (case drop (3 * n) s of [a, b] \<Rightarrow> is_hex_digit a \<and> is_hex_digit b | _ \<Rightarrow> False))"
proof (induction n arbitrary: s)
  case 0
  show ?case by simp
next
  case (Suc n)
  show ?case
    by (simp add: Suc.IH numeral_3_eq_3 split: list.splits)
qed

lemma mac_format_lead_groups:
  "mac_format s =
     (lead_groups 5 s \<and>
      (case drop 15 s of [a, b] \<Rightarrow> is_hex_digit a \<and> is_hex_digit b | _ \<Rightarrow> False))"
  using hex_groups_lead_groups [of 5 s] by (simp add: mac_format_def eval_nat_numeral)

lemma hex_groups_mono:
  "hex_groups n (\<lambda>c. c = x) s \<Longrightarrow> P x \<Longrightarrow> hex_groups n P s"
  by (induction n P s rule: hex_groups.induct) (auto split: list.splits)

lemma uniform_mac_format_imp_mac_format: "uniform_mac_format s \<Longrightarrow> mac_format s"
  unfolding uniform_mac_format_def mac_format_def
  by (auto intro: hex_groups_mono [where P = "\<lambda>c. c = CHR '':'' \<or> c = CHR ''-''"])

text \<open>The pattern also accepts an address followed by one newline, because \<open>$\<close>
  holds before a final newline.\<close>

lemma validate_mac_trailing_newline: "validate_mac (''00:11:22:33:44:55'' @ [CHR 0x0A])"
  by code_simp

text \<open>
  Claim C4, as the code has it: for every string that does not end in a newline,
  \<open>validate_mac\<close> accepts exactly the strings made of six groups of two hexadecimal
  digits (either case) with \<open>:\<close> or \<open>-\<close> between neighbouring groups, each separator
  chosen independently.  Any other grouping, length or separator is rejected.
\<close>

theorem validate_mac_iff_mac_format:
  assumes "s = [] \<or> last s \<noteq> CHR 0x0A"
  shows "validate_mac s = mac_format s"
proof -
  have "c \<noteq> CHR 0x0A" if "drop 15 s = [a, b, c]" for a b c
  proof -
    from that have ne: "s \<noteq> []" by auto
    have "s = take 15 s @ [a, b, c]"
      using that append_take_drop_id [of 15 s] by simp
    then have "last s = last (take 15 s @ [a, b, c])" by simp
    then have "last s = c" by simp
    with ne assms show ?thesis by simp
  qed
  then show ?thesis
    by (auto simp: validate_mac_def re_match_MAC_PATTERN mac_format_lead_groups
          split: list.splits)
qed

theorem validate_mac_iff_mac_format_witness:
  "(''00:11:22:33:44:5G'' = [] \<or> last ''00:11:22:33:44:5G'' \<noteq> CHR 0x0A) \<and>
   \<not> validate_mac ''00:11:22:33:44:5G'' \<and> \<not> mac_format ''00:11:22:33:44:5G''"
proof -
  have h: "''00:11:22:33:44:5G'' = [] \<or> last ''00:11:22:33:44:5G'' \<noteq> CHR 0x0A"
    by simp
  have m: "\<not> mac_format ''00:11:22:33:44:5G''"
    by code_simp
  from validate_mac_iff_mac_format [OF h] m h show ?thesis
    by simp
qed

text \<open>The claim as the specification words it fails: an address that mixes the two
  separators is not in the specification's format, and is accepted.\<close>

theorem validate_mac_mixed_separators_counterexample:
  "validate_mac ''00:11-22:33-44:55'' \<and> \<not> uniform_mac_format ''00:11-22:33-44:55''"
  by code_simp

section \<open>Saving and loading the configuration\<close>

lemma is_hex_digit_not_space: "is_hex_digit c \<Longrightarrow> \<not> py_isspace c"
  unfolding is_hex_digit_def py_isspace_def
  by auto

lemma mac_format_trimmed: "mac_format s \<Longrightarrow> trimmed s"
proof -
  assume "mac_format s"
  then have l: "lead_groups 5 s" and d: "case drop 15 s of [a, b] \<Rightarrow> is_hex_digit a \<and> is_hex_digit b | _ \<Rightarrow> False"
    by (simp_all add: mac_format_lead_groups)
  from l obtain a t where s: "s = a # t" and a: "is_hex_digit a"
    by (auto simp: eval_nat_numeral split: list.splits)
  from d obtain x y where xy: "drop 15 s = [x, y]" and y: "is_hex_digit y"
    by (auto split: list.splits)
  have "s = take 15 s @ [x, y]"
    using xy append_take_drop_id [of 15 s] by simp
  then have "last s = last (take 15 s @ [x, y])" by simp
  then have "last s = y" by simp
  with s a y show ?thesis
    by (simp add: trimmed_def is_hex_digit_not_space)
qed

lemma py_strip_trimmed: "trimmed s \<Longrightarrow> py_strip s = s"
proof -
  assume t: "trimmed s"
  then have ne: "s \<noteq> []" and h: "\<not> py_isspace (hd s)" and l: "\<not> py_isspace (last s)"
    by (simp_all add: trimmed_def)
  from ne h have 1: "dropWhile py_isspace s = s"
    by (cases s) simp_all
  from ne l have 2: "dropWhile py_isspace (rev s) = rev s"
    by (cases "rev s") (simp_all add: hd_rev [symmetric])
  show ?thesis by (simp add: py_strip_def 1 2)
qed

lemma missing_keys_new_config: "missing_keys (new_config c) required_keys = Inr []"
  by (simp add: new_config_def required_keys_def)

lemma validate_fields_new_config:
  assumes "trimmed (WOL_MAC_ADDRESS c)" "trimmed (BROADCAST_ADDRESS c)" "trimmed (SITE_URL c)"
    "0 < WAIT_TIME_SECONDS c" "1 \<le> PORT c" "PORT c \<le> 65535"
  shows "validate_fields lib (new_config c) = Inr c"
proof -
  have ne: "WOL_MAC_ADDRESS c \<noteq> []" "BROADCAST_ADDRESS c \<noteq> []" "SITE_URL c \<noteq> []"
    using assms by (simp_all add: trimmed_def)
  show ?thesis
    using assms(4-6) ne
    by (simp add: validate_fields_def new_config_def checked_int_def
          py_strip_trimmed [OF assms(1)] py_strip_trimmed [OF assms(2)]
          py_strip_trimmed [OF assms(3)])
qed

text \<open>
  Claim C7: for every valid \<open>GatewayConfig\<close>, saving it to the configuration file and
  then loading the file returns the same MAC address, broadcast address, site URL, wait
  time and port.
\<close>

theorem save_then_load:
  assumes "valid_gateway_config c"
  shows "load_config lib (save_config c fs) = Inr c"
proof -
  from assms have "trimmed (WOL_MAC_ADDRESS c)"
    by (simp add: valid_gateway_config_def uniform_mac_format_imp_mac_format mac_format_trimmed)
  with assms have "validate_fields lib (new_config c) = Inr c"
    by (intro validate_fields_new_config) (simp_all add: valid_gateway_config_def)
  then show ?thesis
    by (simp add: load_config_def save_config_def missing_keys_new_config)
qed

theorem save_then_load_witness:
  "valid_gateway_config example_config \<and>
   load_config example_lib (save_config example_config no_files) = Inr example_config"
proof -
  have v: "valid_gateway_config example_config"
    by code_simp
  from save_then_load [OF v] v show ?thesis
    by simp
qed

section \<open>The wake endpoint\<close>

lemma refresh_tag_in_page:
  "\<exists>pre post. WAITING_PAGE_HTML cfg = pre @ refresh_tag cfg @ post"
  unfolding WAITING_PAGE_HTML_def refresh_tag_def
  apply (rule exI [of _ "''\<newline><!DOCTYPE html>\<newline><html>\<newline><head>\<newline>    <title>Server Starting...</title>\<newline>    ''"])
  apply (rule exI)
  apply (simp only: concat.simps append_assoc append.simps)
  done

lemma page_starts_with_newline: "\<exists>rest. WAITING_PAGE_HTML cfg = CHR 0x0A # rest"
  by (simp add: WAITING_PAGE_HTML_def)

text \<open>
  The answers of the wake endpoint.  When the send succeeds, the answer is 200 with the
  waiting page, which holds the refresh tag built from the configured wait time and site
  URL.  When the send fails, the answer is 500 and never the waiting page; it is a
  \<open>WOL Error\<close> text, unless the standard error of the command did not decode.
\<close>

lemma wake_response_cases:
  "(send_succeeds cfg env \<longrightarrow>
      wake_server_and_redirect cfg env = Inr (Html_page (WAITING_PAGE_HTML cfg)) \<and>
      http_status (wake_server_and_redirect cfg env) = 200 \<and>
      (\<exists>pre post. WAITING_PAGE_HTML cfg = pre @ refresh_tag cfg @ post)) \<and>
   (\<not> send_succeeds cfg env \<longrightarrow>
      http_status (wake_server_and_redirect cfg env) = 500 \<and>
      (\<forall>page. wake_server_and_redirect cfg env \<noteq> Inr (Html_page page)) \<and>
      ((\<exists>text. wake_server_and_redirect cfg env = Inr (Plain (''WOL Error: '' @ text) 500)) \<or>
       wake_server_and_redirect cfg env = Inl UnicodeDecodeError))"
proof (intro conjI impI)
  assume ok: "send_succeeds cfg env"
  then show r: "wake_server_and_redirect cfg env = Inr (Html_page (WAITING_PAGE_HTML cfg))"
    by (auto simp: send_succeeds_def wake_server_and_redirect_def split: option.splits)
  then show "http_status (wake_server_and_redirect cfg env) = 200"
    by simp
  show "\<exists>pre post. WAITING_PAGE_HTML cfg = pre @ refresh_tag cfg @ post"
    by (rule refresh_tag_in_page)
next
  assume bad: "\<not> send_succeeds cfg env"
  then show "http_status (wake_server_and_redirect cfg env) = 500"
    by (auto simp: send_succeeds_def wake_server_and_redirect_def
          split: option.splits run_result.splits)
  from bad show "\<forall>page. wake_server_and_redirect cfg env \<noteq> Inr (Html_page page)"
    by (auto simp: send_succeeds_def wake_server_and_redirect_def
          split: option.splits run_result.splits)
  from bad show "(\<exists>text. wake_server_and_redirect cfg env = Inr (Plain (''WOL Error: '' @ text) 500)) \<or>
       wake_server_and_redirect cfg env = Inl UnicodeDecodeError"
    by (auto simp: send_succeeds_def wake_server_and_redirect_def not_found_message_def
          split: option.splits run_result.splits)
qed

lemma find_env_sending: "find_wakeonlan_command env_sending = Some ''wakeonlan''"
  by (simp add: find_wakeonlan_command_def possible_paths_def env_sending_def)

lemma find_env_missing: "find_wakeonlan_command env_missing = None"
  by (simp add: find_wakeonlan_command_def possible_paths_def env_missing_def path_join_def)

lemma find_env_undecodable: "find_wakeonlan_command env_undecodable = Some ''wakeonlan''"
  by (simp add: find_wakeonlan_command_def possible_paths_def env_undecodable_def)

lemma wake_response_examples:
  "send_succeeds example_config env_sending \<and>
   http_status (wake_server_and_redirect example_config env_sending) = 200 \<and>
   refresh_tag example_config =
     ''<meta http-equiv=\"refresh\" content=\"30;url=http://nas.local\">'' \<and>
   \<not> send_succeeds example_config env_missing \<and>
   http_status (wake_server_and_redirect example_config env_missing) = 500"
proof -
  have a: "send_succeeds example_config env_sending"
    by (simp add: send_succeeds_def find_env_sending) (simp add: env_sending_def)
  have b: "\<not> send_succeeds example_config env_missing"
    by (simp add: send_succeeds_def find_env_missing)
  have c: "refresh_tag example_config =
     ''<meta http-equiv=\"refresh\" content=\"30;url=http://nas.local\">''"
    by code_simp
  from wake_response_cases [of example_config env_sending]
       wake_response_cases [of example_config env_missing]
    a b c show ?thesis
    by simp
qed

text \<open>A failed send whose standard error decodes is answered with the message.\<close>

lemma wake_failing_example:
  "wake_server_and_redirect example_config env_failing =
     Inr (Plain ''WOL Error: Could not send packet. Check MAC address: network unreachable'' 500)"
  by (simp add: wake_server_and_redirect_def find_wakeonlan_command_def possible_paths_def
        env_failing_def)

text \<open>
  Claim C8 at a failing send: \<open>wakeonlan\<close> is found, exits with an error, and what it
  wrote to its standard error is not valid UTF-8.  \<open>e.stderr.decode()\<close> raises inside
  the \<open>except\<close> clause, so the view ends in \<open>UnicodeDecodeError\<close>: Flask answers 500 with
  its own page and the \<open>WOL Error\<close> message is never built.
\<close>

theorem wake_failure_without_message:
  "\<not> send_succeeds example_config env_undecodable \<and>
   wake_server_and_redirect example_config env_undecodable = Inl UnicodeDecodeError \<and>
   http_status (wake_server_and_redirect example_config env_undecodable) = 500"
proof -
  have r: "subprocess_run env_undecodable args = CalledProcessError None" for args
    by (simp add: env_undecodable_def)
  have a: "\<not> send_succeeds example_config env_undecodable"
    by (simp add: send_succeeds_def find_env_undecodable r)
  have b: "wake_server_and_redirect example_config env_undecodable = Inl UnicodeDecodeError"
    by (simp add: wake_server_and_redirect_def find_env_undecodable r)
  from a b show ?thesis by simp
qed

section \<open>Loading the configuration: the checks\<close>

lemma missing_keys_dict:
  "missing_keys (JObj kvs) ks = Inr (filter (\<lambda>k. map_of kvs k = None) ks)"
  by (induction ks) (auto simp: map_of_eq_None_iff)

lemma checked_int_cases:
  "checked_int lib msg raw =
     (case py_int lib raw of
        Inr i \<Rightarrow> Inr i
      | Inl OverflowError \<Rightarrow> Inl OverflowError
      | Inl e \<Rightarrow> Inl (ValueError msg))"
  by (cases "(lib, raw)" rule: py_int.cases) (auto simp: checked_int_def split: option.splits)

lemma py_int_overflow: "py_int lib raw = Inl OverflowError \<Longrightarrow> is_infinite raw"
  by (cases "(lib, raw)" rule: py_int.cases) (auto split: option.splits)

lemma load_config_missing_key:
  assumes "config_file fs = Some (Doc (JObj kvs))"
    and "k \<in> set required_keys" and "map_of kvs k = None"
  shows "is_value_error (load_config lib fs)"
proof -
  have "filter (\<lambda>k. map_of kvs k = None) required_keys \<noteq> []"
    using assms(2,3) by (auto simp: filter_empty_conv)
  then show ?thesis
    using assms(1) by (simp add: load_config_def missing_keys_dict)
qed

lemma load_config_all_present:
  assumes "config_file fs = Some (Doc (JObj kvs))"
    and "map_of kvs ''WOL_MAC_ADDRESS'' = Some mac_raw"
    and "map_of kvs ''BROADCAST_ADDRESS'' = Some broadcast_raw"
    and "map_of kvs ''SITE_URL'' = Some site_raw"
    and "map_of kvs ''WAIT_TIME_SECONDS'' = Some wait_raw"
    and "map_of kvs ''PORT'' = Some port_raw"
  shows "load_config lib fs = validate_fields lib (JObj kvs)"
proof -
  have "filter (\<lambda>k. map_of kvs k = None) required_keys = []"
    using assms(2-6) by (simp add: required_keys_def)
  then show ?thesis
    using assms(1) by (simp add: load_config_def missing_keys_dict)
qed

lemma validate_fields_checked:
  assumes "map_of kvs ''WOL_MAC_ADDRESS'' = Some mac_raw"
    and "map_of kvs ''BROADCAST_ADDRESS'' = Some broadcast_raw"
    and "map_of kvs ''SITE_URL'' = Some site_raw"
    and "map_of kvs ''WAIT_TIME_SECONDS'' = Some wait_raw"
    and "map_of kvs ''PORT'' = Some port_raw"
  shows "case checked_config lib kvs of
           Some c \<Rightarrow> validate_fields lib (JObj kvs) = Inr c
         | None \<Rightarrow>
             is_value_error (validate_fields lib (JObj kvs)) \<or>
             validate_fields lib (JObj kvs) = Inl OverflowError \<and>
             (is_infinite wait_raw \<or> is_infinite port_raw)"
  using assms py_int_overflow [of lib wait_raw] py_int_overflow [of lib port_raw]
  by (auto simp: checked_config_def validate_fields_def checked_int_cases Let_def
        split: sum.splits pyerr.splits)

text \<open>A document that is not a dict makes \<open>load_config\<close> fail.\<close>

lemma load_config_not_dict:
  assumes "config_file fs = Some (Doc d)" and "\<not> is_dict d"
  shows "is_failure (load_config lib fs)"
  using assms
  by (cases d)
     (auto simp: load_config_def validate_fields_def required_keys_def split: sum.splits)

text \<open>
  Claim C3, as the code has it: \<open>load_config\<close> fails with \<open>FileNotFoundError\<close> when
  the file is absent and with \<open>ValueError\<close> when the file does not parse.  For a file
  holding a dict whose wait time and port are not infinite floats, it succeeds exactly
  when the five keys are present, the MAC address, broadcast address and site URL are
  not blank, the wait time converts to an integer above zero and the port converts to
  an integer from 1 to 65535; it then returns the stripped strings and the converted
  integers, and otherwise it fails with \<open>ValueError\<close>.  The format of the MAC address
  is not checked.
\<close>

theorem load_config_checks:
  "(config_file fs = None \<longrightarrow> is_not_found (load_config lib fs)) \<and>
   (config_file fs = Some Not_json \<longrightarrow> is_value_error (load_config lib fs)) \<and>
   (\<forall>kvs. config_file fs = Some (Doc (JObj kvs)) \<and> \<not> infinite_field kvs \<longrightarrow>
      (case checked_config lib kvs of
         Some c \<Rightarrow> load_config lib fs = Inr c
       | None \<Rightarrow> is_value_error (load_config lib fs)))"
proof (intro conjI allI impI)
  assume "config_file fs = None"
  then show "is_not_found (load_config lib fs)"
    by (simp add: load_config_def)
next
  assume "config_file fs = Some Not_json"
  then show "is_value_error (load_config lib fs)"
    by (simp add: load_config_def)
next
  fix kvs
  assume h: "config_file fs = Some (Doc (JObj kvs)) \<and> \<not> infinite_field kvs"
  then have doc: "config_file fs = Some (Doc (JObj kvs))" and fin: "\<not> infinite_field kvs"
    by simp_all
  show "case checked_config lib kvs of
          Some c \<Rightarrow> load_config lib fs = Inr c
        | None \<Rightarrow> is_value_error (load_config lib fs)"
  proof (cases "\<exists>k \<in> set required_keys. map_of kvs k = None")
    case True
    then obtain k where k: "k \<in> set required_keys" "map_of kvs k = None"
      by blast
    then have "checked_config lib kvs = None"
      by (auto simp: checked_config_def required_keys_def split: option.splits)
    moreover have "is_value_error (load_config lib fs)"
      using doc k by (rule load_config_missing_key)
    ultimately show ?thesis by simp
  next
    case False
    then obtain mac_raw broadcast_raw site_raw wait_raw port_raw where
      p: "map_of kvs ''WOL_MAC_ADDRESS'' = Some mac_raw"
         "map_of kvs ''BROADCAST_ADDRESS'' = Some broadcast_raw"
         "map_of kvs ''SITE_URL'' = Some site_raw"
         "map_of kvs ''WAIT_TIME_SECONDS'' = Some wait_raw"
         "map_of kvs ''PORT'' = Some port_raw"
      by (auto simp: required_keys_def)
    have l: "load_config lib fs = validate_fields lib (JObj kvs)"
      using doc p by (rule load_config_all_present)
    from fin p(4,5) have "\<not> is_infinite wait_raw" "\<not> is_infinite port_raw"
      by (simp_all add: infinite_field_def)
    with validate_fields_checked [OF p, of lib] show ?thesis
      unfolding l by (auto split: option.splits)
  qed
qed

theorem load_config_checks_witness:
  "is_not_found (load_config example_lib no_files) \<and>
   is_value_error (load_config example_lib (no_files\<lparr>config_file := Some Not_json\<rparr>)) \<and>
   is_value_error
     (load_config example_lib (no_files\<lparr>config_file := Some (Doc example_document_bad_port)\<rparr>)) \<and>
   is_value_error
     (load_config example_lib (no_files\<lparr>config_file := Some (Doc example_document_bad_wait)\<rparr>)) \<and>
   load_config example_lib (save_config example_config no_files) = Inr example_config"
proof -
  let ?bad_port = "[(''WOL_MAC_ADDRESS'', JStr ''00:11:22:33:44:55''),
              (''BROADCAST_ADDRESS'', JStr ''255.255.255.255''),
              (''SITE_URL'', JStr ''http://nas.local''),
              (''WAIT_TIME_SECONDS'', JInt 30),
              (''PORT'', JInt 70000)]"
  let ?bad_wait = "[(''WOL_MAC_ADDRESS'', JStr ''00:11:22:33:44:55''),
              (''BROADCAST_ADDRESS'', JStr ''255.255.255.255''),
              (''SITE_URL'', JStr ''http://nas.local''),
              (''WAIT_TIME_SECONDS'', JStr [CHR 0x1C, CHR ''5'']),
              (''PORT'', JInt 5000)]"
  let ?good = "[(''WOL_MAC_ADDRESS'', JStr ''00:11:22:33:44:55''),
              (''BROADCAST_ADDRESS'', JStr ''255.255.255.255''),
              (''SITE_URL'', JStr ''http://nas.local''),
              (''WAIT_TIME_SECONDS'', JInt 30),
              (''PORT'', JInt 5000)]"
  have a: "config_file no_files = None"
    by (simp add: no_files_def)
  have b: "config_file (no_files\<lparr>config_file := Some Not_json\<rparr>) = Some Not_json"
    by simp
  have c: "checked_config example_lib ?bad_port = None"
    by code_simp
  have c': "checked_config example_lib ?bad_wait = None"
    by code_simp
  have d: "checked_config example_lib ?good = Some example_config"
    by code_simp
  have f: "\<not> infinite_field ?bad_port" "\<not> infinite_field ?bad_wait" "\<not> infinite_field ?good"
    by (simp_all add: infinite_field_def)
  note t1 = load_config_checks [of no_files example_lib]
  note t2 = load_config_checks [of "no_files\<lparr>config_file := Some Not_json\<rparr>" example_lib]
  note t3 = load_config_checks
    [of "no_files\<lparr>config_file := Some (Doc example_document_bad_port)\<rparr>" example_lib]
  note t3' = load_config_checks
    [of "no_files\<lparr>config_file := Some (Doc example_document_bad_wait)\<rparr>" example_lib]
  note t4 = load_config_checks [of "save_config example_config no_files" example_lib]
  have 1: "is_not_found (load_config example_lib no_files)"
    using t1 a by blast
  have 2: "is_value_error (load_config example_lib (no_files\<lparr>config_file := Some Not_json\<rparr>))"
    using t2 b by blast
  have 3: "is_value_error
     (load_config example_lib (no_files\<lparr>config_file := Some (Doc example_document_bad_port)\<rparr>))"
    using t3 c f(1) by (simp add: example_document_bad_port_def)
  have 5: "is_value_error
     (load_config example_lib (no_files\<lparr>config_file := Some (Doc example_document_bad_wait)\<rparr>))"
    using t3' c' f(2) by (simp add: example_document_bad_wait_def)
  have 4: "load_config example_lib (save_config example_config no_files) = Inr example_config"
    using t4 d f(3) by (simp add: save_config_def new_config_def example_config_def)
  from 1 2 3 4 5 show ?thesis by blast
qed

text \<open>The claim as the specification words it fails: a MAC address outside the 6-group
  format (and a wait time that is not an integer) is loaded without error.\<close>

theorem load_config_mac_format_counterexample:
  "\<not> mac_format ''not-a-mac'' \<and> \<not> uniform_mac_format ''not-a-mac'' \<and>
   load_config example_lib (no_files\<lparr>config_file := Some (Doc example_document)\<rparr>) =
     Inr \<lparr>WOL_MAC_ADDRESS = ''not-a-mac'', BROADCAST_ADDRESS = ''255.255.255.255'',
          SITE_URL = ''http://nas.local'', WAIT_TIME_SECONDS = 1, PORT = 5000\<rparr>"
  by code_simp

text \<open>An infinite float as wait time leaves \<open>load_config\<close> as \<open>OverflowError\<close>, which
  the \<open>except (TypeError, ValueError)\<close> clause does not catch.\<close>

lemma load_config_infinite_wait:
  "load_config example_lib
     (no_files\<lparr>config_file := Some (Doc (JObj
        [(''WOL_MAC_ADDRESS'', JStr ''00:11:22:33:44:55''),
         (''BROADCAST_ADDRESS'', JStr ''255.255.255.255''),
         (''SITE_URL'', JStr ''http://nas.local''),
         (''WAIT_TIME_SECONDS'', JFloat (Infinity False)),
         (''PORT'', JInt 5000)]))\<rparr>) = Inl OverflowError"
  by code_simp

section \<open>Login\<close>

lemma verify_window_three:
  "verify_window lib s otp now [- 1, 0, 1] = Inr True \<longleftrightarrow> code_in_window lib s otp now"
  by (auto simp: code_in_window_def step_matches_def split: option.splits)

lemma verify_window_three_False:
  "verify_window lib s otp now [- 1, 0, 1] = Inr False \<longleftrightarrow> code_outside_window lib s otp now"
  by (auto simp: code_outside_window_def split: option.splits)

lemma py_get_dict: "py_get (JObj kvs) k d = Inr (dict_get kvs k d)"
  by (simp add: dict_get_def)

lemma totp_verify_True:
  "totp_verify lib secret otp now = Inr True \<longleftrightarrow>
     (case secret of JStr s \<Rightarrow> code_in_window lib s otp now | _ \<Rightarrow> False)"
  by (cases secret) (simp_all add: totp_verify_def verify_window_three del: verify_window.simps)

lemma credentials_match_True:
  "credentials_match lib (JObj kvs) u p = Inr True \<longleftrightarrow>
     map_of kvs ''admin_username'' = Some (JStr u) \<and>
     map_of kvs ''admin_password_hash'' = Some (JStr (sha256_hexdigest lib p))"
  by (auto simp: credentials_match_def verify_password_def hash_password_def
        split: option.splits)

lemma login_conditions_dict:
  "admin_file fs = Some (Doc (JObj kvs)) \<Longrightarrow>
   login_conditions lib now req fs =
     (truthy (dict_get kvs ''admin_enabled'' (JBool False)) \<and>
      credentials_match lib (JObj kvs) (form_get req ''username'' '''')
        (form_get req ''password'' '''') = Inr True \<and>
      second_factor_passes lib now req kvs)"
  by (simp add: login_conditions_def credentials_match_True)

lemma second_factor_passes_iff:
  "second_factor_passes lib now req kvs =
     (\<not> truthy (dict_get kvs ''2fa_enabled'' (JBool False)) \<or>
      (\<exists>secret. py_getitem (JObj kvs) ''2fa_secret'' = Inr secret \<and>
         totp_verify lib secret (form_get req ''totp_code'' '''') now = Inr True))"
  by (auto simp: second_factor_passes_def totp_verify_True split: option.splits json.splits)

lemma login_session_dict:
  assumes "req_method req = POST" and "admin_file fs = Some (Doc (JObj kvs))"
  shows "snd (snd (login lib now req fs sess)) =
           (if login_conditions lib now req fs
            then sess\<lparr>admin_logged_in := Some True, permanent := True\<rparr> else sess)"
proof -
  let ?u = "form_get req ''username'' ''''"
  let ?p = "form_get req ''password'' ''''"
  let ?c = "form_get req ''totp_code'' ''''"
  show ?thesis
  proof (cases "truthy (dict_get kvs ''admin_enabled'' (JBool False))")
    case False
    then show ?thesis
      using assms by (simp add: login_def load_admin_config_def dict_get_def login_conditions_dict)
  next
    case enabled: True
    show ?thesis
    proof (cases "credentials_match lib (JObj kvs) ?u ?p")
      case (Inl e)
      then show ?thesis
        using assms enabled
        by (simp add: login_def load_admin_config_def dict_get_def login_conditions_dict)
    next
      case (Inr ok)
      show ?thesis
      proof (cases ok)
        case False
        with Inr show ?thesis
          using assms enabled
          by (simp add: login_def load_admin_config_def dict_get_def login_conditions_dict)
      next
        case True
        with Inr have cm: "credentials_match lib (JObj kvs) ?u ?p = Inr True" by simp
        show ?thesis
        proof (cases "truthy (dict_get kvs ''2fa_enabled'' (JBool False))")
          case False
          then show ?thesis
            using assms enabled cm
            by (simp add: login_def load_admin_config_def dict_get_def login_conditions_dict
                  second_factor_passes_iff)
        next
          case tfa: True
          show ?thesis
          proof (cases "py_getitem (JObj kvs) ''2fa_secret''")
            case (Inl e)
            then show ?thesis
              using assms enabled cm tfa
              by (simp add: login_def load_admin_config_def dict_get_def login_conditions_dict
                    second_factor_passes_iff)
          next
            case (Inr secret)
            then show ?thesis
              using assms enabled cm tfa
              by (cases "totp_verify lib secret ?c now")
                 (auto simp: login_def load_admin_config_def dict_get_def login_conditions_dict
                    second_factor_passes_iff split: bool.splits)
          qed
        qed
      qed
    qed
  qed
qed

lemma login_session_not_dict:
  assumes "\<forall>kvs. admin_file fs \<noteq> Some (Doc (JObj kvs))"
  shows "snd (snd (login lib now req fs sess)) = sess" and "\<not> login_conditions lib now req fs"
proof -
  show "\<not> login_conditions lib now req fs"
    using assms by (auto simp: login_conditions_def split: option.splits contents.splits json.splits)
  show "snd (snd (login lib now req fs sess)) = sess"
  proof (cases "admin_file fs")
    case None
    then show ?thesis
      by (simp add: login_def load_admin_config_def default_config_def)
  next
    case (Some c)
    show ?thesis
    proof (cases c)
      case Not_json
      with Some show ?thesis
        by (simp add: login_def load_admin_config_def default_config_def)
    next
      case (Doc d)
      with Some assms have "\<not> is_dict d" by (cases d) auto
      then have "py_get d ''admin_enabled'' (JBool False) = Inl AttributeError"
        by (cases d) auto
      with Some Doc show ?thesis
        by (simp add: login_def load_admin_config_def)
    qed
  qed
qed

text \<open>A GET of the login page never changes the session: only a submission can log in.\<close>

lemma login_GET_keeps_session:
  assumes "req_method req = GET"
  shows "snd (snd (login lib now req fs sess)) = sess"
  using assms
  by (auto simp: login_def load_admin_config_def split: option.splits contents.splits sum.splits)

text \<open>
  Claim C1: a login submission (a POST) takes a logged-out session to \<open>LoggedIn\<close> if and
  only if the admin panel is enabled, the submitted username equals the stored one, the
  SHA-256 digest of the submitted password equals the stored hash, and the second factor
  is disabled or the submitted code is the code of the stored secret at the current time
  step or one of its two neighbours; when a condition fails the session is unchanged.
\<close>

theorem login_transition:
  assumes "req_method req = POST" and "\<not> LoggedIn sess"
  shows "(LoggedIn (snd (snd (login lib now req fs sess))) \<longleftrightarrow> login_conditions lib now req fs) \<and>
         (\<not> login_conditions lib now req fs \<longrightarrow> snd (snd (login lib now req fs sess)) = sess)"
proof (cases "\<exists>kvs. admin_file fs = Some (Doc (JObj kvs))")
  case True
  then obtain kvs where "admin_file fs = Some (Doc (JObj kvs))" by blast
  from login_session_dict [OF assms(1) this] assms(2) show ?thesis
    by (simp add: LoggedIn_def)
next
  case False
  then have "\<forall>kvs. admin_file fs \<noteq> Some (Doc (JObj kvs))" by blast
  from login_session_not_dict [OF this] assms(2) show ?thesis
    by simp
qed

theorem login_transition_witness:
  "req_method (login_request ''admin'' ''hunter2'' ''870960'') = POST \<and>
   \<not> LoggedIn logged_out_session \<and>
   login_conditions example_lib 56666667 (login_request ''admin'' ''hunter2'' ''870960'')
     example_files \<and>
   LoggedIn (snd (snd (login example_lib 56666667 (login_request ''admin'' ''hunter2'' ''870960'')
     example_files logged_out_session))) \<and>
   \<not> login_conditions example_lib 56666667 (login_request ''admin'' ''hunter2'' ''822542'')
     example_files \<and>
   snd (snd (login example_lib 56666667 (login_request ''admin'' ''hunter2'' ''822542'')
     example_files logged_out_session)) = logged_out_session"
proof -
  have m: "req_method (login_request u p c) = POST" for u p c
    by (simp add: login_request_def)
  have s: "\<not> LoggedIn logged_out_session"
    by (simp add: LoggedIn_def logged_out_session_def)
  have a: "login_conditions example_lib 56666667 (login_request ''admin'' ''hunter2'' ''870960'')
     example_files"
    by code_simp
  have b: "\<not> login_conditions example_lib 56666667 (login_request ''admin'' ''hunter2'' ''822542'')
     example_files"
    by code_simp
  from login_transition [OF m s, where lib = example_lib and now = 56666667
           and fs = example_files and u1 = "''admin''" and p1 = "''hunter2''" and c1 = "''870960''"]
       login_transition [OF m s, where lib = example_lib and now = 56666667
           and fs = example_files and u1 = "''admin''" and p1 = "''hunter2''" and c1 = "''822542''"]
       m s a b
  show ?thesis by simp
qed

section \<open>The error of a failed login\<close>

lemma totp_verify_False:
  "code_outside_window lib s otp now \<Longrightarrow> totp_verify lib (JStr s) otp now = Inr False"
  by (simp add: totp_verify_def verify_window_three_False del: verify_window.simps)

text \<open>
  Claim C2, as the code has it: when the stored username or the stored password hash
  differs from what was submitted, the login page shows \<open>Invalid username or password\<close>,
  the same text in both cases; when both match and the second factor is enabled, a code
  outside the window gives the different text \<open>Invalid 2FA code\<close>.
\<close>

theorem login_error_messages:
  assumes "req_method req = POST"
    and "admin_file fs = Some (Doc (JObj kvs))"
    and "truthy (dict_get kvs ''admin_enabled'' (JBool False))"
    and "map_of kvs ''admin_username'' = Some (JStr stored_username)"
    and "map_of kvs ''admin_password_hash'' = Some (JStr stored_hash)"
  shows "(form_get req ''username'' '''' \<noteq> stored_username \<or>
          sha256_hexdigest lib (form_get req ''password'' '''') \<noteq> stored_hash \<longrightarrow>
            fst (login lib now req fs sess) =
              Inr (Login_page (Some ''Invalid username or password'')
                     (truthy (dict_get kvs ''2fa_enabled'' (JBool False))))) \<and>
         (form_get req ''username'' '''' = stored_username \<and>
          sha256_hexdigest lib (form_get req ''password'' '''') = stored_hash \<and>
          truthy (dict_get kvs ''2fa_enabled'' (JBool False)) \<and>
          (\<exists>secret. map_of kvs ''2fa_secret'' = Some (JStr secret) \<and>
             code_outside_window lib secret (form_get req ''totp_code'' '''') now) \<longrightarrow>
            fst (login lib now req fs sess) = Inr (Login_page (Some ''Invalid 2FA code'') True))"
proof (intro conjI impI)
  assume "form_get req ''username'' '''' \<noteq> stored_username \<or>
          sha256_hexdigest lib (form_get req ''password'' '''') \<noteq> stored_hash"
  then have "credentials_match lib (JObj kvs) (form_get req ''username'' '''')
               (form_get req ''password'' '''') = Inr False"
    using assms(4,5)
    by (auto simp: credentials_match_def verify_password_def hash_password_def)
  then show "fst (login lib now req fs sess) =
              Inr (Login_page (Some ''Invalid username or password'')
                     (truthy (dict_get kvs ''2fa_enabled'' (JBool False))))"
    using assms(1-3) by (simp add: login_def load_admin_config_def dict_get_def)
next
  assume h: "form_get req ''username'' '''' = stored_username \<and>
          sha256_hexdigest lib (form_get req ''password'' '''') = stored_hash \<and>
          truthy (dict_get kvs ''2fa_enabled'' (JBool False)) \<and>
          (\<exists>secret. map_of kvs ''2fa_secret'' = Some (JStr secret) \<and>
             code_outside_window lib secret (form_get req ''totp_code'' '''') now)"
  then obtain secret where
    sec: "map_of kvs ''2fa_secret'' = Some (JStr secret)" and
    out: "code_outside_window lib secret (form_get req ''totp_code'' '''') now"
    by blast
  from h assms(4,5) have cm: "credentials_match lib (JObj kvs) (form_get req ''username'' '''')
               (form_get req ''password'' '''') = Inr True"
    by (simp add: credentials_match_True)
  from h have tfa: "truthy (dict_get kvs ''2fa_enabled'' (JBool False))" by simp
  show "fst (login lib now req fs sess) = Inr (Login_page (Some ''Invalid 2FA code'') True)"
    using assms(1-3) cm tfa sec totp_verify_False [OF out]
    by (simp add: login_def load_admin_config_def dict_get_def)
qed

theorem login_error_messages_witness:
  "fst (login example_lib 56666667 (login_request ''admin'' ''wrong'' ''367665'')
         example_files logged_out_session) =
     Inr (Login_page (Some ''Invalid username or password'') True) \<and>
   fst (login example_lib 56666667 (login_request ''root'' ''hunter2'' ''367665'')
         example_files logged_out_session) =
     Inr (Login_page (Some ''Invalid username or password'') True) \<and>
   fst (login example_lib 56666667 (login_request ''admin'' ''hunter2'' ''822542'')
         example_files logged_out_session) =
     Inr (Login_page (Some ''Invalid 2FA code'') True)"
proof -
  let ?kvs = "[(''admin_enabled'', JBool True),
           (''admin_username'', JStr ''admin''),
           (''admin_password_hash'',
            JStr ''f52fbd32b2b3b86ff88ef6c490628285f482af15ddcb29541f94bcf526a3f6c7''),
           (''2fa_enabled'', JBool True),
           (''2fa_secret'', JStr ''JBSWY3DPEHPK3PXP'')]"
  have m: "req_method (login_request u p c) = POST" for u p c
    by (simp add: login_request_def)
  have f: "admin_file example_files = Some (Doc (JObj ?kvs))"
    by (simp add: example_files_def example_credentials_def)
  have e: "truthy (dict_get ?kvs ''admin_enabled'' (JBool False))"
    by (simp add: dict_get_def)
  have u: "map_of ?kvs ''admin_username'' = Some (JStr ''admin'')"
    by simp
  have h: "map_of ?kvs ''admin_password_hash'' =
     Some (JStr ''f52fbd32b2b3b86ff88ef6c490628285f482af15ddcb29541f94bcf526a3f6c7'')"
    by simp
  have w: "sha256_hexdigest example_lib ''wrong'' \<noteq>
     ''f52fbd32b2b3b86ff88ef6c490628285f482af15ddcb29541f94bcf526a3f6c7''"
    by (simp add: example_lib_def example_sha256_def)
  have r: "sha256_hexdigest example_lib ''hunter2'' =
     ''f52fbd32b2b3b86ff88ef6c490628285f482af15ddcb29541f94bcf526a3f6c7''"
    by (simp add: example_lib_def example_sha256_def)
  have o: "code_outside_window example_lib ''JBSWY3DPEHPK3PXP'' ''822542'' 56666667"
    by (simp add: code_outside_window_def example_lib_def example_totp_def)
  have t: "truthy (dict_get ?kvs ''2fa_enabled'' (JBool False))"
    by (simp add: dict_get_def)
  have s: "map_of ?kvs ''2fa_secret'' = Some (JStr ''JBSWY3DPEHPK3PXP'')"
    by simp
  note th = login_error_messages [OF m f e u h]
  have 1: "fst (login example_lib 56666667 (login_request ''admin'' ''wrong'' ''367665'')
         example_files logged_out_session) =
     Inr (Login_page (Some ''Invalid username or password'') True)"
    using th [where u1 = "''admin''" and p1 = "''wrong''" and c1 = "''367665''"
        and lib = example_lib and now = 56666667 and sess = logged_out_session] w t
    by (simp add: login_request_def form_get_def)
  have 2: "fst (login example_lib 56666667 (login_request ''root'' ''hunter2'' ''367665'')
         example_files logged_out_session) =
     Inr (Login_page (Some ''Invalid username or password'') True)"
    using th [where u1 = "''root''" and p1 = "''hunter2''" and c1 = "''367665''"
        and lib = example_lib and now = 56666667 and sess = logged_out_session] t
    by (simp add: login_request_def form_get_def)
  have 3: "fst (login example_lib 56666667 (login_request ''admin'' ''hunter2'' ''822542'')
         example_files logged_out_session) =
     Inr (Login_page (Some ''Invalid 2FA code'') True)"
    using th [where u1 = "''admin''" and p1 = "''hunter2''" and c1 = "''822542''"
        and lib = example_lib and now = 56666667 and sess = logged_out_session] r o t s
    by (simp add: login_request_def form_get_def)
  from 1 2 3 show ?thesis by blast
qed

text \<open>The claim as the specification words it fails: a wrong password and a wrong code
  give two different error texts, so the text tells that the password was right.\<close>

theorem login_error_differs_counterexample:
  "fst (login example_lib 56666667 (login_request ''admin'' ''wrong'' ''367665'')
         example_files logged_out_session) =
     Inr (Login_page (Some ''Invalid username or password'') True) \<and>
   fst (login example_lib 56666667 (login_request ''admin'' ''hunter2'' ''822542'')
         example_files logged_out_session) =
     Inr (Login_page (Some ''Invalid 2FA code'') True) \<and>
   ''Invalid username or password'' \<noteq> ''Invalid 2FA code''"
  by code_simp

section \<open>A credentials file that does not parse\<close>

lemma default_config_disabled:
  "py_get default_config ''admin_enabled'' (JBool False) = Inr (JBool False)"
  by (simp add: default_config_def)

text \<open>
  Claim C10: when the credentials file exists and does not parse, \<open>load_admin_config\<close>
  returns the default record (panel disabled, username \<open>admin\<close>, empty password hash,
  second factor disabled) and writes nothing, whereas for a missing file it returns the
  same record and writes it; with the unparsable file every view behind
  \<open>login_required\<close>, and \<open>login\<close> itself, answers 403 without raising, leaving files
  and session as they were and not running the view.
\<close>

theorem unparsable_credentials_file:
  "(admin_file fs = Some Not_json \<longrightarrow>
      load_admin_config fs = (default_config, fs) \<and>
      login_required f fs sess = (Inr disabled_response, fs, sess) \<and>
      login lib now req fs sess = (Inr disabled_response, fs, sess)) \<and>
   (admin_file fs = None \<longrightarrow>
      load_admin_config fs = (default_config, fs\<lparr>admin_file := Some (Doc default_config)\<rparr>)) \<and>
   default_config =
     JObj [(''admin_enabled'', JBool False), (''admin_username'', JStr ''admin''),
           (''admin_password_hash'', JStr ''''), (''2fa_enabled'', JBool False),
           (''2fa_secret'', JStr '''')] \<and>
   status_of disabled_response = 403"
proof (intro conjI impI)
  assume bad: "admin_file fs = Some Not_json"
  then show l: "load_admin_config fs = (default_config, fs)"
    by (simp add: load_admin_config_def)
  show "login_required f fs sess = (Inr disabled_response, fs, sess)"
    by (simp add: login_required_def l default_config_disabled del: py_get.simps)
  show "login lib now req fs sess = (Inr disabled_response, fs, sess)"
    by (simp add: login_def l default_config_disabled del: py_get.simps)
next
  assume "admin_file fs = None"
  then show "load_admin_config fs =
      (default_config, fs\<lparr>admin_file := Some (Doc default_config)\<rparr>)"
    by (simp add: load_admin_config_def save_admin_config_def)
next
  show "default_config =
     JObj [(''admin_enabled'', JBool False), (''admin_username'', JStr ''admin''),
           (''admin_password_hash'', JStr ''''), (''2fa_enabled'', JBool False),
           (''2fa_secret'', JStr '''')]"
    by (simp add: default_config_def)
  show "status_of disabled_response = 403"
    by (simp add: disabled_response_def)
qed

theorem unparsable_credentials_file_witness:
  "admin_file (example_files\<lparr>admin_file := Some Not_json\<rparr>) = Some Not_json \<and>
   dashboard (example_files\<lparr>admin_file := Some Not_json\<rparr>) logged_in_session =
     (Inr disabled_response, example_files\<lparr>admin_file := Some Not_json\<rparr>, logged_in_session) \<and>
   admin_file no_files = None \<and>
   snd (load_admin_config no_files) = no_files\<lparr>admin_file := Some (Doc default_config)\<rparr>"
proof -
  have a: "admin_file (example_files\<lparr>admin_file := Some Not_json\<rparr>) = Some Not_json"
    by simp
  have b: "admin_file no_files = None"
    by (simp add: no_files_def)
  from unparsable_credentials_file
         [where fs = "example_files\<lparr>admin_file := Some Not_json\<rparr>" and f = dashboard_body
            and sess = logged_in_session]
       unparsable_credentials_file [where fs = no_files]
       a b
  show ?thesis by (simp add: dashboard_def)
qed

section \<open>Editing and deleting with an index out of range\<close>

lemma login_required_config_file:
  assumes "\<And>fs1 s. config_file fs1 = config_file fs \<Longrightarrow>
             config_file (fst (snd (f fs1 s))) = config_file fs"
  shows "config_file (fst (snd (login_required f fs sess))) = config_file fs"
proof -
  obtain admin_config fs1 where l: "load_admin_config fs = (admin_config, fs1)"
    by (cases "load_admin_config fs")
  then have c: "config_file fs1 = config_file fs"
    by (auto simp: load_admin_config_def save_admin_config_def
          split: option.splits contents.splits)
  show ?thesis
    using c assms [OF c]
    by (simp add: login_required_def l split: sum.splits)
qed

lemma login_required_passes:
  assumes "panel_enabled fs" and "LoggedIn sess"
  shows "login_required f fs sess = f fs sess"
  using assms
  by (auto simp: login_required_def panel_enabled_def LoggedIn_def load_admin_config_def
        dict_get_def split: option.splits contents.splits json.splits)

lemma edit_server_body_out_of_range:
  assumes "config_file fs = Some (Doc (JObj kvs))"
    and "dict_get kvs ''SERVERS'' (JList []) = JList servers"
    and "server_id < 0 \<or> int (length servers) \<le> server_id"
  shows "edit_server_body lib server_id req fs sess = (Inr invalid_id_response, fs, sess)"
  using assms
  by (auto simp: edit_server_body_def read_config_def dict_get_def split: option.splits)

lemma delete_server_body_out_of_range:
  assumes "config_file fs = Some (Doc (JObj kvs))"
    and "dict_get kvs ''SERVERS'' (JList []) = JList servers"
    and "server_id < 0 \<or> int (length servers) \<le> server_id"
  shows "delete_server_body lib server_id fs sess = (Inr invalid_id_response, fs, sess)"
  using assms
  by (auto simp: delete_server_body_def read_config_def dict_get_def split: option.splits)

text \<open>
  Claim C5: for every roster (the list under \<open>SERVERS\<close>, empty when the key is absent)
  and every index below 0 or not below its length, the edit and the delete view answer
  404 and leave the files and the session as they were.  Behind \<open>login_required\<close> the
  configuration file is unchanged whatever the session is, and with the panel enabled
  and the session logged in the answer is that 404.
\<close>

theorem out_of_range_index_rejected:
  assumes "config_file fs = Some (Doc (JObj kvs))"
    and "dict_get kvs ''SERVERS'' (JList []) = JList servers"
    and "server_id < 0 \<or> int (length servers) \<le> server_id"
  shows "edit_server_body lib server_id req fs sess = (Inr invalid_id_response, fs, sess) \<and>
         delete_server_body lib server_id fs sess = (Inr invalid_id_response, fs, sess) \<and>
         status_of invalid_id_response = 404 \<and>
         config_file (fst (snd (edit_server lib server_id req fs sess))) = config_file fs \<and>
         config_file (fst (snd (delete_server lib server_id fs sess))) = config_file fs \<and>
         (panel_enabled fs \<and> LoggedIn sess \<longrightarrow>
            edit_server lib server_id req fs sess = (Inr invalid_id_response, fs, sess) \<and>
            delete_server lib server_id fs sess = (Inr invalid_id_response, fs, sess))"
proof -
  have e: "edit_server_body lib server_id req fs1 s = (Inr invalid_id_response, fs1, s)"
    if "config_file fs1 = config_file fs" for fs1 s
    using that assms by (intro edit_server_body_out_of_range) simp_all
  have d: "delete_server_body lib server_id fs1 s = (Inr invalid_id_response, fs1, s)"
    if "config_file fs1 = config_file fs" for fs1 s
    using that assms by (intro delete_server_body_out_of_range) simp_all
  have 1: "config_file (fst (snd (edit_server lib server_id req fs sess))) = config_file fs"
    unfolding edit_server_def by (rule login_required_config_file) (simp add: e)
  have 2: "config_file (fst (snd (delete_server lib server_id fs sess))) = config_file fs"
    unfolding delete_server_def by (rule login_required_config_file) (simp add: d)
  show ?thesis
    using e [of fs sess] d [of fs sess] 1 2
    by (simp add: invalid_id_response_def edit_server_def delete_server_def
          login_required_passes)
qed

theorem out_of_range_index_rejected_witness:
  "edit_server example_lib 1 bad_server_request example_files logged_in_session =
     (Inr invalid_id_response, example_files, logged_in_session) \<and>
   delete_server example_lib (- 1) example_files logged_in_session =
     (Inr invalid_id_response, example_files, logged_in_session) \<and>
   config_file (fst (snd (delete_server example_lib 1 example_files logged_out_session))) =
     config_file example_files"
proof -
  let ?kvs = "[(''PORT'', JInt 5000), (''SERVERS'', JList [example_entry])]"
  have c: "config_file example_files = Some (Doc (JObj ?kvs))"
    by (simp add: example_files_def example_roster_def)
  have r: "dict_get ?kvs ''SERVERS'' (JList []) = JList [example_entry]"
    by (simp add: dict_get_def)
  have p: "panel_enabled example_files"
    by (simp add: panel_enabled_def example_files_def example_credentials_def dict_get_def)
  have l: "LoggedIn logged_in_session"
    by (simp add: LoggedIn_def logged_in_session_def)
  have i1: "(1::int) < 0 \<or> int (length [example_entry]) \<le> 1"
    by simp
  have i2: "(- 1::int) < 0 \<or> int (length [example_entry]) \<le> - 1"
    by simp
  from out_of_range_index_rejected [OF c r i1, where sess = logged_in_session
         and req = bad_server_request]
       out_of_range_index_rejected [OF c r i2, where sess = logged_in_session
         and lib = example_lib]
       out_of_range_index_rejected [OF c r i1, where sess = logged_out_session
         and lib = example_lib]
       p l
  show ?thesis by simp
qed

section \<open>What the add and edit views store\<close>









section \<open>Second-factor enrollment\<close>

lemma enable_2fa_raises:
  "enable_2fa fresh_secret admin_config fs sess = (Inl (NameError ''TOTP_AVAILABLE''), fs, sess)"
  by (simp add: enable_2fa_def TOTP_AVAILABLE_def)

text \<open>The second step of the enrollment does what the specification says: a code in the
  window of the pending secret sets the flag, a code outside leaves the file alone.\<close>

lemma verify_2fa_in_window:
  assumes "map_of kvs ''2fa_secret'' = Some (JStr secret)"
    and "code_in_window lib secret (form_get req ''totp_code'' '''') now"
  shows "verify_2fa lib now (JObj kvs) req fs sess =
           (Inr security_redirect,
            save_admin_config (JObj (AList.update ''2fa_enabled'' (JBool True) kvs)) fs,
            flash ''2FA enabled successfully'' ''success'' sess)"
proof -
  have "totp_verify lib (JStr secret) (form_get req ''totp_code'' '''') now = Inr True"
    using assms(2) by (simp add: totp_verify_True)
  then show ?thesis
    using assms(1) by (simp add: verify_2fa_def)
qed

lemma verify_2fa_outside_window:
  assumes "map_of kvs ''2fa_secret'' = Some (JStr secret)"
    and "code_outside_window lib secret (form_get req ''totp_code'' '''') now"
  shows "verify_2fa lib now (JObj kvs) req fs sess =
           (Inr security_redirect, fs,
            flash ''Invalid 2FA code. Please try again.'' ''error'' sess)"
  using assms(1) totp_verify_False [OF assms(2)]
  by (simp add: verify_2fa_def)

text \<open>
  Claim C6 at its first step: a logged-in administrator posts \<open>action=enable_2fa\<close>.  The
  view raises \<open>NameError\<close> for \<open>TOTP_AVAILABLE\<close> before it draws a secret; the
  credentials file is as it was, so no pending secret is stored.
\<close>

theorem enable_2fa_request_raises:
  "security_settings example_lib 56666667 ''NBSWY3DPEBLW64TM'' enable_2fa_request
     example_files logged_in_session =
     (Inl (NameError ''TOTP_AVAILABLE''), example_files, logged_in_session)"
  by (simp add: security_settings_def login_required_def security_settings_body_def
        load_admin_config_def example_files_def example_credentials_def
        logged_in_session_def enable_2fa_request_def enable_2fa_raises)

end
